theory Spec2Isabelle
  imports Complex_Main "HOL-Library.Sublist"
begin

section \<open>JavaScript values\<close>

text \<open>
  The request bodies, query strings and form data of the expense tracker are JSON-like
  objects.  A number is a rational extended by \<open>NaN\<close> and the two infinities; the rounding
  of a decimal literal to binary64 is not fixed here but passed in as \<open>toDouble\<close> wherever
  the code parses text, so every result below holds for the real rounding as well.  Negative
  zero is identified with zero.  A string is a list of characters, one per UTF-16 code unit
  (code units up to 255).  Field values are the scalars of JSON plus \<open>undefined\<close> (an absent
  property); nested arrays and objects as field values are outside the model.
\<close>

datatype jsnum = NaN | PosInf | NegInf | Fin rat

datatype jsval = JUndefined | JNull | JBool bool | JNum jsnum | JStr string

type_synonym jsobj = "string \<rightharpoonup> jsval"

text \<open>Property access \<open>obj.k\<close>: an absent property reads as \<open>undefined\<close>.\<close>

definition get_prop :: "jsobj \<Rightarrow> string \<Rightarrow> jsval" where
  "get_prop obj k = (case obj k of None \<Rightarrow> JUndefined | Some v \<Rightarrow> v)"

text \<open>ToBoolean, as used by \<open>!x\<close>, \<open>x && y\<close>, \<open>x || y\<close> and \<open>if (x)\<close>.\<close>

fun truthy :: "jsval \<Rightarrow> bool" where
  "truthy JUndefined = False"
| "truthy JNull = False"
| "truthy (JBool b) = b"
| "truthy (JNum NaN) = False"
| "truthy (JNum (Fin q)) = (q \<noteq> 0)"
| "truthy (JNum PosInf) = True"
| "truthy (JNum NegInf) = True"
| "truthy (JStr s) = (s \<noteq> [])"

text \<open>The relational operators on numbers: every comparison with \<open>NaN\<close> is false.\<close>

fun js_lt :: "jsnum \<Rightarrow> jsnum \<Rightarrow> bool" where
  "js_lt (Fin a) (Fin b) = (a < b)"
| "js_lt (Fin a) PosInf = True"
| "js_lt NegInf (Fin b) = True"
| "js_lt NegInf PosInf = True"
| "js_lt _ _ = False"

definition js_gt :: "jsnum \<Rightarrow> jsnum \<Rightarrow> bool" where
  "js_gt x y = js_lt y x"

definition js_le :: "jsnum \<Rightarrow> jsnum \<Rightarrow> bool" where
  "js_le x y = (x \<noteq> NaN \<and> y \<noteq> NaN \<and> \<not> js_lt y x)"

section \<open>Strings: trim, parseFloat, isNaN\<close>

definition is_ws :: "char \<Rightarrow> bool" where
  "is_ws c = (c \<in> set [CHR 0x09, CHR 0x0A, CHR 0x0B, CHR 0x0C, CHR 0x0D, CHR 0x20, CHR 0xA0])"

definition trim_start :: "string \<Rightarrow> string" where
  "trim_start s = dropWhile is_ws s"

definition trim :: "string \<Rightarrow> string" where
  "trim s = rev (dropWhile is_ws (rev (dropWhile is_ws s)))"

definition is_digit :: "char \<Rightarrow> bool" where
  "is_digit c = (c \<in> set ''0123456789'')"

definition digit_val :: "char \<Rightarrow> nat" where
  "digit_val c = of_char c - 48"

definition digits_val :: "string \<Rightarrow> nat" where
  "digits_val ds = foldl (\<lambda>n c. 10 * n + digit_val c) 0 ds"

definition pow10 :: "int \<Rightarrow> rat" where
  "pow10 e = (if 0 \<le> e then 10 ^ nat e else 1 / 10 ^ nat (- e))"

text \<open>
  The grammar \<open>StrDecimalLiteral\<close> of ECMAScript: an optional sign, then \<open>Infinity\<close> or
  digits with an optional fraction and an optional exponent.  Each scanner returns what it
  read and the text left over; an exponent marker without digits is not part of the literal.
\<close>

definition scan_sign :: "string \<Rightarrow> bool \<times> string" where
  "scan_sign s = (case s of [] \<Rightarrow> (False, s)
     | c # t \<Rightarrow> if c = CHR ''-'' then (True, t) else if c = CHR ''+'' then (False, t) else (False, s))"

definition scan_exponent :: "string \<Rightarrow> int \<times> string" where
  "scan_exponent s = (case s of [] \<Rightarrow> (0, s)
     | c # t \<Rightarrow>
         if c = CHR ''e'' \<or> c = CHR ''E'' then
           (let (neg, r) = scan_sign t; ds = takeWhile is_digit r in
            if ds = [] then (0, s)
            else (if neg then - int (digits_val ds) else int (digits_val ds), dropWhile is_digit r))
         else (0, s))"

definition scan_unsigned :: "string \<Rightarrow> (rat \<times> string) option" where
  "scan_unsigned s =
     (let ip = takeWhile is_digit s; r1 = dropWhile is_digit s;
          (fp, r2) = (case r1 of [] \<Rightarrow> ([], r1)
             | c # t \<Rightarrow> if c = CHR ''.'' \<and> (ip \<noteq> [] \<or> takeWhile is_digit t \<noteq> [])
                        then (takeWhile is_digit t, dropWhile is_digit t) else ([], r1));
          (e, r3) = scan_exponent r2
      in if ip = [] \<and> fp = [] then None
         else Some (of_nat (digits_val (ip @ fp)) * pow10 (e - int (length fp)), r3))"

datatype literal = LInfinity bool | LDecimal rat

definition scan_literal :: "string \<Rightarrow> (literal \<times> string) option" where
  "scan_literal s =
     (let (neg, r) = scan_sign s in
      if take 8 r = ''Infinity'' then Some (LInfinity neg, drop 8 r)
      else map_option (\<lambda>(q, rest). (LDecimal (if neg then - q else q), rest)) (scan_unsigned r))"

definition literal_value :: "(rat \<Rightarrow> jsnum) \<Rightarrow> literal \<Rightarrow> jsnum" where
  "literal_value toDouble l =
     (case l of LInfinity neg \<Rightarrow> (if neg then NegInf else PosInf) | LDecimal q \<Rightarrow> toDouble q)"

text \<open>
  \<open>parseFloat(v)\<close> converts its argument to a string, skips leading white space and reads the
  longest prefix that is a decimal literal.  The string form of a number reads back as the
  same number, and the string forms of \<open>undefined\<close>, \<open>null\<close> and the booleans have no numeric
  prefix.
\<close>

fun parseFloat :: "(rat \<Rightarrow> jsnum) \<Rightarrow> jsval \<Rightarrow> jsnum" where
  "parseFloat toDouble (JStr s) =
     (case scan_literal (trim_start s) of None \<Rightarrow> NaN | Some (l, rest) \<Rightarrow> literal_value toDouble l)"
| "parseFloat toDouble (JNum n) = n"
| "parseFloat toDouble v = NaN"


text \<open>
  \<open>isNaN(v)\<close> is \<open>ToNumber(v)\<close> being \<open>NaN\<close>.  For a string, ToNumber wants the whole
  trimmed text to be a numeric literal: empty (zero), a decimal literal, or a hexadecimal,
  octal or binary integer literal.
\<close>

definition radix_literal :: "string \<Rightarrow> bool" where
  "radix_literal s = (case s of
       z # x # ds \<Rightarrow> z = CHR ''0'' \<and> ds \<noteq> [] \<and>
         ((x \<in> set ''xX'' \<and> list_all (\<lambda>c. c \<in> set ''0123456789abcdefABCDEF'') ds) \<or>
          (x \<in> set ''oO'' \<and> list_all (\<lambda>c. c \<in> set ''01234567'') ds) \<or>
          (x \<in> set ''bB'' \<and> list_all (\<lambda>c. c \<in> set ''01'') ds))
     | _ \<Rightarrow> False)"

fun isNaN :: "jsval \<Rightarrow> bool" where
  "isNaN JUndefined = True"
| "isNaN JNull = False"
| "isNaN (JBool b) = False"
| "isNaN (JNum n) = (n = NaN)"
| "isNaN (JStr s) =
     (let t = trim s in
      t \<noteq> [] \<and> \<not> radix_literal t \<and>
      (case scan_literal t of None \<Rightarrow> True | Some (l, rest) \<Rightarrow> rest \<noteq> []))"

section \<open>The host environment\<close>

text \<open>
  What the code takes from its host and this development does not compute: the rounding of
  a decimal value to a binary64 number, the text of a number, the numeric reading SQLite
  gives to a text operand compared with a numeric column (\<open>None\<close> when the text is no
  numeric literal), SQLite's aggregate \<open>SUM\<close> over the values of a column that are not
  \<open>NULL\<close> and its \<open>ROUND(x, 2)\<close> (both work in binary64 arithmetic, so neither is the
  exact sum or the exact decimal rounding), the clock in milliseconds since the epoch, the
  text of SQLite's \<open>CURRENT_TIMESTAMP\<close>, and whether \<open>NODE_ENV\<close> is \<open>development\<close>.
\<close>

record env =
  toDouble :: "rat \<Rightarrow> jsnum"
  numberToString :: "jsnum \<Rightarrow> string"
  sqlNumeric :: "string \<Rightarrow> jsnum option"
  sqlSum :: "jsval list \<Rightarrow> jsval"
  sqlRound2 :: "jsval \<Rightarrow> jsval"
  nowMs :: int
  timestamp :: string
  development :: bool

text \<open>ToString, as a template literal applies it to a scalar.\<close>

fun to_string :: "env \<Rightarrow> jsval \<Rightarrow> string" where
  "to_string E JUndefined = ''undefined''"
| "to_string E JNull = ''null''"
| "to_string E (JBool b) = (if b then ''true'' else ''false'')"
| "to_string E (JNum n) = numberToString E n"
| "to_string E (JStr s) = s"

section \<open>Dates\<close>

text \<open>
  \<open>date_parts\<close> is the pattern \<open>/^\d{4}-\d{2}-\d{2}$/\<close> with the three numbers it reads.
  \<open>parseDate\<close> is the time value of \<open>new Date(s)\<close> for a text of that shape, \<open>None\<close>
  standing for an invalid date: a date-only ISO text is midnight UTC of that day.  Node's
  engine accepts any month from 1 to 12 with any day from 1 to 31 and lets a day beyond the
  end of the month run over into the next one.
\<close>

fun date_parts :: "string \<Rightarrow> (nat \<times> nat \<times> nat) option" where
  "date_parts [y1, y2, y3, y4, h1, m1, m2, h2, d1, d2] =
     (if list_all is_digit [y1, y2, y3, y4, m1, m2, d1, d2] \<and> h1 = CHR ''-'' \<and> h2 = CHR ''-''
      then Some (digits_val [y1, y2, y3, y4], digits_val [m1, m2], digits_val [d1, d2])
      else None)"
| "date_parts s = None"

definition DayFromYear :: "int \<Rightarrow> int" where
  "DayFromYear y = 365 * (y - 1970) + (y - 1969) div 4 - (y - 1901) div 100 + (y - 1601) div 400"

definition leap_year :: "int \<Rightarrow> bool" where
  "leap_year y = (y mod 4 = 0 \<and> (y mod 100 \<noteq> 0 \<or> y mod 400 = 0))"

definition days_before_month :: "int \<Rightarrow> nat \<Rightarrow> int" where
  "days_before_month y m =
     int ([0, 31, 59, 90, 120, 151, 181, 212, 243, 273, 304, 334] ! (m - 1)) +
     (if leap_year y \<and> 2 < m then 1 else 0)"

definition days_in_month :: "int \<Rightarrow> nat \<Rightarrow> nat" where
  "days_in_month y m =
     (if m = 2 then (if leap_year y then 29 else 28)
      else if m \<in> {4, 6, 9, 11} then 30 else 31)"

definition MakeDay :: "nat \<Rightarrow> nat \<Rightarrow> nat \<Rightarrow> int" where
  "MakeDay y m d = DayFromYear (int y) + days_before_month (int y) m + (int d - 1)"

definition msPerDay :: int where
  "msPerDay = 86400000"

definition parseDate :: "string \<Rightarrow> int option" where
  "parseDate s = (case date_parts s of None \<Rightarrow> None
     | Some (y, m, d) \<Rightarrow>
         if 1 \<le> m \<and> m \<le> 12 \<and> 1 \<le> d \<and> d \<le> 31 then Some (MakeDay y m d * msPerDay) else None)"

text \<open>
  A calendar date proper: the shape above, a month of the year and a day of that month.
  On these every engine agrees.
\<close>

definition calendar_date :: "string \<Rightarrow> bool" where
  "calendar_date s = (case date_parts s of None \<Rightarrow> False
     | Some (y, m, d) \<Rightarrow> 1 \<le> m \<and> m \<le> 12 \<and> 1 \<le> d \<and> d \<le> days_in_month (int y) m)"

text \<open>The day number (days since the epoch) of a calendar date and of an instant, in UTC
  and on a clock \<open>tz\<close> minutes east of UTC.\<close>

definition day_of_date :: "string \<Rightarrow> int" where
  "day_of_date s = (case date_parts s of None \<Rightarrow> 0 | Some (y, m, d) \<Rightarrow> MakeDay y m d)"

definition utc_day :: "int \<Rightarrow> int" where
  "utc_day t = t div msPerDay"

definition local_day :: "int \<Rightarrow> int \<Rightarrow> int" where
  "local_day tz t = (t + tz * 60000) div msPerDay"

section \<open>Validation (utils/validators.js)\<close>

definition VALID_CATEGORIES :: "string list" where
  "VALID_CATEGORIES =
     [''Food'', ''Transport'', ''Entertainment'', ''Utilities'', ''Healthcare'', ''Shopping'', ''Other'']"

fun join :: "string \<Rightarrow> string list \<Rightarrow> string" where
  "join sep [] = []"
| "join sep [x] = x"
| "join sep (x # y # ys) = x @ sep @ join sep (y # ys)"

record field_error =
  field :: string
  message :: string

record validation =
  isValid :: bool
  errors :: "field_error list"

text \<open>
  \<open>isValidDate\<close>: the pattern is tested on the string form of the argument, and the string
  form of \<open>undefined\<close>, \<open>null\<close>, a boolean or a number never has the shape of the pattern.
\<close>

fun isValidDate :: "jsval \<Rightarrow> bool" where
  "isValidDate (JStr s) = (if date_parts s = None then False else parseDate s \<noteq> None)"
| "isValidDate v = False"

text \<open>\<open>new Date(expense.date) > new Date()\<close>; an invalid date compares false.\<close>

fun date_after_now :: "env \<Rightarrow> jsval \<Rightarrow> bool" where
  "date_after_now E (JStr s) = (case parseDate s of None \<Rightarrow> False | Some t \<Rightarrow> nowMs E < t)"
| "date_after_now E v = False"

definition date_errors :: "env \<Rightarrow> jsobj \<Rightarrow> field_error list" where
  "date_errors E expense =
     (if \<not> truthy (get_prop expense ''date'') then
        [\<lparr>field = ''date'', message = ''Date is required''\<rparr>]
      else if \<not> isValidDate (get_prop expense ''date'') then
        [\<lparr>field = ''date'', message = ''Invalid date format (use YYYY-MM-DD)''\<rparr>]
      else if date_after_now E (get_prop expense ''date'') then
        [\<lparr>field = ''date'', message = ''Date cannot be in the future''\<rparr>]
      else [])"

definition amount_errors :: "env \<Rightarrow> jsobj \<Rightarrow> field_error list" where
  "amount_errors E expense =
     (if get_prop expense ''amount'' = JUndefined \<or> get_prop expense ''amount'' = JNull
         \<or> get_prop expense ''amount'' = JStr [] then
        [\<lparr>field = ''amount'', message = ''Amount is required''\<rparr>]
      else if isNaN (get_prop expense ''amount'') then
        [\<lparr>field = ''amount'', message = ''Amount must be a number''\<rparr>]
      else if js_le (parseFloat (toDouble E) (get_prop expense ''amount'')) (Fin 0) then
        [\<lparr>field = ''amount'', message = ''Amount must be greater than 0''\<rparr>]
      else if js_gt (parseFloat (toDouble E) (get_prop expense ''amount'')) (Fin 999999) then
        [\<lparr>field = ''amount'', message = ''Amount too large''\<rparr>]
      else [])"

text \<open>\<open>VALID_CATEGORIES.includes(v)\<close>: only a string can be equal to a member.\<close>

fun includes_category :: "jsval \<Rightarrow> bool" where
  "includes_category (JStr s) = (s \<in> set VALID_CATEGORIES)"
| "includes_category v = False"

definition category_errors :: "jsobj \<Rightarrow> field_error list" where
  "category_errors expense =
     (if \<not> truthy (get_prop expense ''category'') then
        [\<lparr>field = ''category'', message = ''Category is required''\<rparr>]
      else if \<not> includes_category (get_prop expense ''category'') then
        [\<lparr>field = ''category'',
          message = ''Category must be one of: '' @ join '', '' VALID_CATEGORIES\<rparr>]
      else [])"

fun is_string :: "jsval \<Rightarrow> bool" where
  "is_string (JStr s) = True"
| "is_string v = False"

fun str_length :: "jsval \<Rightarrow> nat" where
  "str_length (JStr s) = length s"
| "str_length v = 0"

definition description_errors :: "jsobj \<Rightarrow> field_error list" where
  "description_errors expense =
     (if truthy (get_prop expense ''description'') \<and> \<not> is_string (get_prop expense ''description'') then
        [\<lparr>field = ''description'', message = ''Description must be text''\<rparr>]
      else if truthy (get_prop expense ''description'') \<and> 255 < str_length (get_prop expense ''description'') then
        [\<lparr>field = ''description'', message = ''Description too long (max 255 chars)''\<rparr>]
      else [])"

text \<open>The four blocks push onto one list in turn.\<close>

definition validateExpense :: "env \<Rightarrow> jsobj \<Rightarrow> validation" where
  "validateExpense E expense =
     (let errors = date_errors E expense @ amount_errors E expense
                   @ category_errors expense @ description_errors expense
      in \<lparr>isValid = (length errors = 0), errors = errors\<rparr>)"

text \<open>
  The validator's rules as a table, to compare the code with: the fields in their order,
  and for each field its rules in the order they are tested, a rule being the condition
  under which it fails and its message.  \<open>first_failures\<close> reports, for each field in
  turn, the message of the first of its rules that fails, and nothing for a field none of
  whose rules fails.
\<close>

type_synonym rule = "(jsval \<Rightarrow> bool) \<times> string"

definition date_rules :: "env \<Rightarrow> rule list" where
  "date_rules E =
     [(\<lambda>v. \<not> truthy v, ''Date is required''),
      (\<lambda>v. \<not> isValidDate v, ''Invalid date format (use YYYY-MM-DD)''),
      (\<lambda>v. date_after_now E v, ''Date cannot be in the future'')]"

definition amount_rules :: "env \<Rightarrow> rule list" where
  "amount_rules E =
     [(\<lambda>v. v = JUndefined \<or> v = JNull \<or> v = JStr [], ''Amount is required''),
      (\<lambda>v. isNaN v, ''Amount must be a number''),
      (\<lambda>v. js_le (parseFloat (toDouble E) v) (Fin 0), ''Amount must be greater than 0''),
      (\<lambda>v. js_gt (parseFloat (toDouble E) v) (Fin 999999), ''Amount too large'')]"

definition category_rules :: "rule list" where
  "category_rules =
     [(\<lambda>v. \<not> truthy v, ''Category is required''),
      (\<lambda>v. \<not> includes_category v,
       ''Category must be one of: Food, Transport, Entertainment, Utilities, Healthcare, Shopping, Other'')]"

definition description_rules :: "rule list" where
  "description_rules =
     [(\<lambda>v. truthy v \<and> \<not> is_string v, ''Description must be text''),
      (\<lambda>v. truthy v \<and> 255 < str_length v, ''Description too long (max 255 chars)'')]"

definition field_rules :: "env \<Rightarrow> (string \<times> rule list) list" where
  "field_rules E =
     [(''date'', date_rules E), (''amount'', amount_rules E),
      (''category'', category_rules), (''description'', description_rules)]"

definition first_failing :: "rule list \<Rightarrow> jsval \<Rightarrow> string list" where
  "first_failing rules v = (case filter (\<lambda>r. fst r v) rules of [] \<Rightarrow> [] | r # rs \<Rightarrow> [snd r])"

definition first_failures :: "env \<Rightarrow> jsobj \<Rightarrow> field_error list" where
  "first_failures E expense =
     concat (map (\<lambda>fr. map (\<lambda>m. \<lparr>field = fst fr, message = m\<rparr>)
                            (first_failing (snd fr) (get_prop expense (fst fr))))
                 (field_rules E))"

section \<open>Errors and sanitizing\<close>

text \<open>
  A thrown \<open>Error\<close> with the properties the handlers set on it.  \<open>details\<close> is the list
  under \<open>details.errors\<close>.
\<close>

record js_error =
  error_message :: string
  statusCode :: "nat option"
  code :: "string option"
  details :: "field_error list option"

definition Error :: "string \<Rightarrow> js_error" where
  "Error m = \<lparr>error_message = m, statusCode = None, code = None, details = None\<rparr>"

text \<open>
  \<open>v?.trim()\<close>: \<open>undefined\<close> for a missing or null value, the trimmed text for a string; any
  other value has no \<open>trim\<close> method and the call throws a \<open>TypeError\<close>.
\<close>

definition optional_trim :: "string \<Rightarrow> jsval \<Rightarrow> js_error + jsval" where
  "optional_trim name v = (case v of
       JUndefined \<Rightarrow> Inr JUndefined
     | JNull \<Rightarrow> Inr JUndefined
     | JStr s \<Rightarrow> Inr (JStr (trim s))
     | _ \<Rightarrow> Inl (Error (''expense.'' @ name @ ''?.trim is not a function'')))"


definition or_null :: "jsval \<Rightarrow> jsval" where
  "or_null v = (if truthy v then v else JNull)"

definition sanitizeExpense :: "env \<Rightarrow> jsobj \<Rightarrow> js_error + jsobj" where
  "sanitizeExpense E expense =
     (case optional_trim ''date'' (get_prop expense ''date'') of Inl e \<Rightarrow> Inl e
      | Inr date \<Rightarrow>
     (case optional_trim ''category'' (get_prop expense ''category'') of Inl e \<Rightarrow> Inl e
      | Inr category \<Rightarrow>
     (case optional_trim ''description'' (get_prop expense ''description'') of Inl e \<Rightarrow> Inl e
      | Inr description \<Rightarrow>
          Inr [''date'' \<mapsto> date,
               ''amount'' \<mapsto> JNum (parseFloat (toDouble E) (get_prop expense ''amount'')),
               ''category'' \<mapsto> category,
               ''description'' \<mapsto> or_null description])))"

section \<open>The store (models/database.js)\<close>

text \<open>
  The table \<open>expenses\<close>: rows in rowid order and the largest id ever handed out
  (\<open>AUTOINCREMENT\<close>).  A rowid is a signed 64-bit integer; JavaScript sees it as a
  binary64 number.  A column holds the value bound to it; column affinity is not applied,
  the handlers bind texts to the text columns and a number to \<open>amount\<close>.  The statements
  fail on the data through \<open>NOT NULL\<close> and, for an insert, when the ids are used up;
  faults of the storage engine itself are not modelled.
\<close>

record expense_row =
  row_id :: int
  row_date :: jsval
  row_amount :: jsval
  row_category :: jsval
  row_description :: jsval
  row_created_at :: jsval

record database =
  rows :: "expense_row list"
  seq :: int

definition initializeDatabase :: database where
  "initializeDatabase = \<lparr>rows = [], seq = 0\<rparr>"

text \<open>The well-formed tables: ids are unique and positive and none is above the counter.\<close>

definition wf_db :: "database \<Rightarrow> bool" where
  "wf_db db = (distinct (map row_id (rows db)) \<and> 0 \<le> seq db
     \<and> list_all (\<lambda>r. 0 < row_id r \<and> row_id r \<le> seq db) (rows db))"

text \<open>
  The binary64 number nearest to an integer, ties to the even mantissa: an integer of
  magnitude below \<open>2^53\<close> is itself, a larger one keeps its 53 leading bits.  (Integers of
  the 64-bit range; none of them overflows.)
\<close>

function ulp_exp :: "nat \<Rightarrow> nat" where
  "ulp_exp m = (if m < 9007199254740992 then 0 else Suc (ulp_exp (m div 2)))"
  by pat_completeness auto
termination
  by (relation "measure (\<lambda>m. m)") auto

declare ulp_exp.simps [simp del]

definition double_of_int :: "int \<Rightarrow> int" where
  "double_of_int n =
     (let m = nat \<bar>n\<bar>; u = 2 ^ ulp_exp m; q = m div u; r = m mod u;
          q' = (if u < 2 * r \<or> (2 * r = u \<and> odd q) then q + 1 else q)
      in sgn n * int (q' * u))"

text \<open>
  Binding a parameter: \<open>undefined\<close> and \<open>NaN\<close> arrive as \<open>NULL\<close>, a boolean as the
  integer 1 or 0.
\<close>

fun bind :: "jsval \<Rightarrow> jsval" where
  "bind JUndefined = JNull"
| "bind (JNum NaN) = JNull"
| "bind (JBool b) = JNum (Fin (if b then 1 else 0))"
| "bind v = v"

definition row_object :: "expense_row \<Rightarrow> jsobj" where
  "row_object r =
     [''id'' \<mapsto> JNum (Fin (of_int (double_of_int (row_id r)))),
      ''date'' \<mapsto> row_date r,
      ''amount'' \<mapsto> row_amount r,
      ''category'' \<mapsto> row_category r,
      ''description'' \<mapsto> row_description r,
      ''created_at'' \<mapsto> row_created_at r]"

text \<open>The comparison \<open>id = ?\<close> of the integer key with a bound parameter.\<close>

fun id_matches :: "env \<Rightarrow> jsval \<Rightarrow> int \<Rightarrow> bool" where
  "id_matches E (JNum (Fin q)) i = (q = of_int i)"
| "id_matches E (JStr s) i = (sqlNumeric E s = Some (Fin (of_int i)))"
| "id_matches E (JBool b) i = (i = (if b then 1 else 0))"
| "id_matches E v i = False"

definition not_null_failure :: "expense_row \<Rightarrow> string option" where
  "not_null_failure r =
     (if row_date r = JNull then Some ''SQLITE_CONSTRAINT: NOT NULL constraint failed: expenses.date''
      else if row_amount r = JNull then Some ''SQLITE_CONSTRAINT: NOT NULL constraint failed: expenses.amount''
      else if row_category r = JNull then Some ''SQLITE_CONSTRAINT: NOT NULL constraint failed: expenses.category''
      else None)"

text \<open>\<open>INSERT INTO expenses (date, amount, category, description) VALUES (?, ?, ?, ?)\<close>,
  giving the new rowid and the new table.  Once the largest rowid has been handed out the
  insert fails with \<open>SQLITE_FULL\<close>.\<close>

definition run_insert :: "env \<Rightarrow> jsval list \<Rightarrow> database \<Rightarrow> string + int \<times> database" where
  "run_insert E params db =
     (let r = \<lparr>row_id = seq db + 1,
                row_date = bind (params ! 0),
                row_amount = bind (params ! 1),
                row_category = bind (params ! 2),
                row_description = bind (params ! 3),
                row_created_at = JStr (timestamp E)\<rparr>
      in if 9223372036854775807 \<le> seq db then Inl ''SQLITE_FULL: database or disk is full''
         else case not_null_failure r of
           Some m \<Rightarrow> Inl m
         | None \<Rightarrow> Inr (row_id r, \<lparr>rows = rows db @ [r], seq = row_id r\<rparr>))"

definition getExpenseById :: "env \<Rightarrow> jsval \<Rightarrow> database \<Rightarrow> jsobj option" where
  "getExpenseById E ident db =
     map_option row_object (find (\<lambda>r. id_matches E ident (row_id r)) (rows db))"

text \<open>\<open>this.lastID\<close> is the new rowid as a JavaScript number.\<close>

definition addExpense :: "env \<Rightarrow> jsobj \<Rightarrow> database \<Rightarrow> (js_error + jsobj option) \<times> database" where
  "addExpense E expense db =
     (let params = [get_prop expense ''date'', get_prop expense ''amount'',
                    get_prop expense ''category'', or_null (get_prop expense ''description'')]
      in case run_insert E params db of
           Inl m \<Rightarrow> (Inl (Error (''Failed to add expense: '' @ m)), db)
         | Inr (rowid, db') \<Rightarrow>
             (let lastID = JNum (Fin (of_int (double_of_int rowid)))
              in (Inr (getExpenseById E lastID db'), db')))"

text \<open>\<open>UPDATE expenses SET f = ?, ... WHERE id = ?\<close> for the assignments built by the loop.\<close>

definition set_column :: "expense_row \<Rightarrow> string \<times> jsval \<Rightarrow> expense_row" where
  "set_column r a =
     (if fst a = ''date'' then r\<lparr>row_date := bind (snd a)\<rparr>
      else if fst a = ''amount'' then r\<lparr>row_amount := bind (snd a)\<rparr>
      else if fst a = ''category'' then r\<lparr>row_category := bind (snd a)\<rparr>
      else if fst a = ''description'' then r\<lparr>row_description := bind (snd a)\<rparr>
      else r)"

definition run_update :: "env \<Rightarrow> (string \<times> jsval) list \<Rightarrow> jsval \<Rightarrow> database \<Rightarrow> string + database" where
  "run_update E sets ident db =
     (let rows' = map (\<lambda>r. if id_matches E ident (row_id r) then foldl set_column r sets else r) (rows db)
      in case List.map_filter (\<lambda>r. if id_matches E ident (row_id r) then not_null_failure (foldl set_column r sets) else None)
                (rows db) of
           m # ms \<Rightarrow> Inl m
         | [] \<Rightarrow> Inr (db\<lparr>rows := rows'\<rparr>))"

definition updateExpense :: "env \<Rightarrow> jsval \<Rightarrow> jsobj \<Rightarrow> database \<Rightarrow> (js_error + jsobj option) \<times> database" where
  "updateExpense E ident updates db =
     (let allowedFields = [''date'', ''amount'', ''category'', ''description''];
          updateFields = filter (\<lambda>f. updates f \<noteq> None) allowedFields
      in if length updateFields = 0 then (Inl (Error ''No valid fields to update''), db)
         else case run_update E (map (\<lambda>f. (f, get_prop updates f)) updateFields) ident db of
                Inl m \<Rightarrow> (Inl (Error (''Failed to update expense: '' @ m)), db)
              | Inr db' \<Rightarrow> (Inr (getExpenseById E ident db'), db'))"

text \<open>\<open>DELETE FROM expenses WHERE id = ?\<close>; \<open>changes\<close> is the number of rows removed.\<close>

definition deleteExpense :: "env \<Rightarrow> jsval \<Rightarrow> database \<Rightarrow> (js_error + bool) \<times> database" where
  "deleteExpense E ident db =
     (let changes = length (filter (\<lambda>r. id_matches E ident (row_id r)) (rows db));
          db' = db\<lparr>rows := filter (\<lambda>r. \<not> id_matches E ident (row_id r)) (rows db)\<rparr>
      in if changes = 0
         then (Inl (Error (''Expense with ID '' @ to_string E ident @ '' not found'')), db')
         else (Inr True, db'))"

text \<open>
  The order of SQLite across storage classes: \<open>NULL\<close> first, then numbers, then texts by
  their code units.  A comparison with \<open>NULL\<close> in a \<open>WHERE\<close> clause selects nothing.
\<close>

fun str_le :: "string \<Rightarrow> string \<Rightarrow> bool" where
  "str_le [] t = True"
| "str_le (c # s) [] = False"
| "str_le (c # s) (d # t) = (if c = d then str_le s t else (of_char c :: nat) < of_char d)"

fun sql_le :: "jsval \<Rightarrow> jsval \<Rightarrow> bool" where
  "sql_le (JNum a) (JNum b) = js_le a b"
| "sql_le (JNum a) (JStr t) = True"
| "sql_le (JStr s) (JStr t) = str_le s t"
| "sql_le v w = False"

fun order_le :: "jsval \<Rightarrow> jsval \<Rightarrow> bool" where
  "order_le (JNum a) (JNum b) = js_le a b"
| "order_le (JNum a) (JStr t) = True"
| "order_le (JStr s) (JStr t) = str_le s t"
| "order_le (JStr s) (JNum b) = False"
| "order_le (JNum a) w = False"
| "order_le (JStr s) w = False"
| "order_le v w = True"

text \<open>A text compared with the numeric column \<open>amount\<close> is read as a number when it is one.\<close>

fun numeric_affinity :: "env \<Rightarrow> jsval \<Rightarrow> jsval" where
  "numeric_affinity E (JStr s) = (case sqlNumeric E s of Some n \<Rightarrow> JNum n | None \<Rightarrow> JStr s)"
| "numeric_affinity E v = v"

definition sql_between :: "env \<Rightarrow> jsval \<Rightarrow> jsval \<Rightarrow> jsval \<Rightarrow> bool" where
  "sql_between E v lo hi =
     (sql_le (numeric_affinity E (bind lo)) v \<and> sql_le v (numeric_affinity E (bind hi)))"

definition sql_equal :: "jsval \<Rightarrow> jsval \<Rightarrow> bool" where
  "sql_equal v w = (v \<noteq> JNull \<and> v = bind w)"

text \<open>\<open>ORDER BY date DESC\<close>: rows with the same date stay in rowid order.\<close>

fun insert_desc :: "expense_row \<Rightarrow> expense_row list \<Rightarrow> expense_row list" where
  "insert_desc x [] = [x]"
| "insert_desc x (y # ys) =
     (if order_le (row_date y) (row_date x) then x # y # ys else y # insert_desc x ys)"

definition order_by_date_desc :: "expense_row list \<Rightarrow> expense_row list" where
  "order_by_date_desc rs = foldr insert_desc rs []"

text \<open>The \<open>WHERE\<close> clause that \<open>getAllExpenses\<close> builds from its options.\<close>

definition where_clause :: "env \<Rightarrow> jsobj \<Rightarrow> expense_row \<Rightarrow> bool" where
  "where_clause E options r =
     ((if truthy (get_prop options ''category'')
       then sql_equal (row_category r) (get_prop options ''category'') else True) \<and>
      (if truthy (get_prop options ''minAmount'') \<and> truthy (get_prop options ''maxAmount'')
       then sql_between E (row_amount r) (get_prop options ''minAmount'') (get_prop options ''maxAmount'')
       else True))"

definition getAllExpenses :: "env \<Rightarrow> jsobj \<Rightarrow> database \<Rightarrow> jsobj list" where
  "getAllExpenses E options db =
     map row_object (order_by_date_desc (filter (where_clause E options) (rows db)))"

text \<open>
  The summary query.  \<open>SUM\<close> skips \<open>NULL\<close> and is \<open>NULL\<close> when nothing is left, as it
  is over no rows; \<open>ROUND\<close> of \<open>NULL\<close> is \<open>NULL\<close>.  What they compute on numbers is the
  environment's.  The groups come in the order of their category.
\<close>

record summary_row =
  totalCount :: nat
  totalAmount :: jsval
  category :: jsval
  categoryTotal :: jsval

definition sql_sum :: "env \<Rightarrow> jsval list \<Rightarrow> jsval" where
  "sql_sum E vs = (if filter (\<lambda>v. v \<noteq> JNull) vs = [] then JNull
                   else sqlSum E (filter (\<lambda>v. v \<noteq> JNull) vs))"

definition sql_round2 :: "env \<Rightarrow> jsval \<Rightarrow> jsval" where
  "sql_round2 E v = (if v = JNull then JNull else sqlRound2 E v)"

fun insert_asc :: "jsval \<Rightarrow> jsval list \<Rightarrow> jsval list" where
  "insert_asc x [] = [x]"
| "insert_asc x (y # ys) = (if order_le x y then x # y # ys else y # insert_asc x ys)"

definition group_keys :: "expense_row list \<Rightarrow> jsval list" where
  "group_keys rs = foldr insert_asc (remdups (map row_category rs)) []"

definition aggregate :: "env \<Rightarrow> jsval \<Rightarrow> expense_row list \<Rightarrow> summary_row" where
  "aggregate E c rs =
     \<lparr>totalCount = length rs,
      totalAmount = sql_sum E (map row_amount rs),
      category = c,
      categoryTotal = sql_round2 E (sql_sum E (map row_amount rs))\<rparr>"

definition getExpenseSummary :: "env \<Rightarrow> database \<Rightarrow> summary_row list" where
  "getExpenseSummary E db =
     map (\<lambda>c. aggregate E c (filter (\<lambda>r. row_category r = c) (rows db))) (group_keys (rows db))
     @ [aggregate E (JStr ''TOTAL'') (rows db)]"

section \<open>Request handlers (controllers/expenseController.js, middleware/errorHandler.js)\<close>

text \<open>
  A response is its status and its JSON body.  In a failure body the details are present
  only in a development build; \<open>None\<close> under them stands for the empty object.
\<close>

datatype body =
    Data "jsobj option" string
  | DataList "jsobj list" nat
  | Summary "summary_row list"
  | Deleted string string
  | Failure string string "field_error list option option"

record response =
  status :: nat
  body :: body

text \<open>The \<open>error.code\<close> of a failure body.\<close>

fun error_code :: "body \<Rightarrow> string option" where
  "error_code (Failure c m d) = Some c"
| "error_code b = None"

definition errorHandler :: "env \<Rightarrow> js_error \<Rightarrow> response" where
  "errorHandler E err =
     (let statusCode = (case statusCode err of None \<Rightarrow> 500 | Some c \<Rightarrow> if c = 0 then 500 else c);
          errorCode = (case code err of None \<Rightarrow> ''INTERNAL_SERVER_ERROR''
                       | Some c \<Rightarrow> if c = [] then ''INTERNAL_SERVER_ERROR'' else c);
          message = (if error_message err = [] then ''An unexpected error occurred'' else error_message err)
      in \<lparr>status = statusCode,
          body = Failure errorCode message (if development E then Some (details err) else None)\<rparr>)"

definition validation_error :: "field_error list \<Rightarrow> js_error" where
  "validation_error errs =
     \<lparr>error_message = ''Validation failed'', statusCode = Some 400,
      code = Some ''VALIDATION_ERROR'', details = Some errs\<rparr>"

definition not_found_error :: "string \<Rightarrow> js_error" where
  "not_found_error ident =
     \<lparr>error_message = ''Expense with ID '' @ ident @ '' not found'', statusCode = Some 404,
      code = Some ''NOT_FOUND'', details = None\<rparr>"

definition fetchAllExpenses :: "env \<Rightarrow> jsobj \<Rightarrow> database \<Rightarrow> response" where
  "fetchAllExpenses E query db =
     (let expenses = getAllExpenses E query db
      in \<lparr>status = 200, body = DataList expenses (length expenses)\<rparr>)"

definition createExpense :: "env \<Rightarrow> jsobj \<Rightarrow> database \<Rightarrow> response \<times> database" where
  "createExpense E req_body db =
     (case sanitizeExpense E req_body of
        Inl e \<Rightarrow> (errorHandler E e, db)
      | Inr sanitized \<Rightarrow>
          if \<not> isValid (validateExpense E sanitized)
          then (errorHandler E (validation_error (errors (validateExpense E sanitized))), db)
          else (case addExpense E sanitized db of
                  (Inl e, db') \<Rightarrow> (errorHandler E e, db')
                | (Inr expense, db') \<Rightarrow>
                    (\<lparr>status = 201, body = Data expense ''Expense created successfully''\<rparr>, db')))"

text \<open>The path parameter \<open>id\<close> is a text; the merge is \<open>{...existing, ...req.body}\<close>.\<close>

definition updateExpenseData :: "env \<Rightarrow> string \<Rightarrow> jsobj \<Rightarrow> database \<Rightarrow> response \<times> database" where
  "updateExpenseData E ident req_body db =
     (case getExpenseById E (JStr ident) db of
        None \<Rightarrow> (errorHandler E (not_found_error ident), db)
      | Some existing \<Rightarrow>
          (case sanitizeExpense E (existing ++ req_body) of
             Inl e \<Rightarrow> (errorHandler E e, db)
           | Inr updates \<Rightarrow>
               if \<not> isValid (validateExpense E updates)
               then (errorHandler E (validation_error (errors (validateExpense E updates))), db)
               else (case updateExpense E (JStr ident) updates db of
                       (Inl e, db') \<Rightarrow> (errorHandler E e, db')
                     | (Inr updated, db') \<Rightarrow>
                         (\<lparr>status = 200, body = Data updated ''Expense updated successfully''\<rparr>, db'))))"

definition removeExpense :: "env \<Rightarrow> string \<Rightarrow> database \<Rightarrow> response \<times> database" where
  "removeExpense E ident db =
     (case getExpenseById E (JStr ident) db of
        None \<Rightarrow> (errorHandler E (not_found_error ident), db)
      | Some existing \<Rightarrow>
          (case deleteExpense E (JStr ident) db of
             (Inl e, db') \<Rightarrow> (errorHandler E e, db')
           | (Inr ok, db') \<Rightarrow>
               (\<lparr>status = 200, body = Deleted ''Expense deleted successfully'' ident\<rparr>, db')))"

definition getSummary :: "env \<Rightarrow> database \<Rightarrow> response" where
  "getSummary E db = \<lparr>status = 200, body = Summary (getExpenseSummary E db)\<rparr>"

section \<open>Client: form validation (utils.js)\<close>

text \<open>
  The browser's clock runs \<open>tz\<close> minutes east of UTC.  \<open>today.setHours(0, 0, 0, 0)\<close> is
  local midnight of the current local day, while \<open>new Date(formData.date)\<close> for a date-only
  text is midnight UTC.  The form's date is the value of a date field, empty or of the
  shape \<open>YYYY-MM-DD\<close>; any other text is taken as an invalid date.
\<close>

definition local_midnight :: "int \<Rightarrow> int \<Rightarrow> int" where
  "local_midnight tz now = local_day tz now * msPerDay - tz * 60000"

fun expense_date_after :: "jsval \<Rightarrow> int \<Rightarrow> bool" where
  "expense_date_after (JStr s) today = (case parseDate s of None \<Rightarrow> False | Some t \<Rightarrow> today < t)"
| "expense_date_after v today = False"

definition validateExpenseForm :: "(rat \<Rightarrow> jsnum) \<Rightarrow> int \<Rightarrow> int \<Rightarrow> jsobj \<Rightarrow> string option" where
  "validateExpenseForm toD tz now formData =
     (if \<not> truthy (get_prop formData ''date'') then Some ''Date is required''
      else if expense_date_after (get_prop formData ''date'') (local_midnight tz now)
        then Some ''Date cannot be in the future''
      else if \<not> truthy (get_prop formData ''amount'') \<or> get_prop formData ''amount'' = JStr []
        then Some ''Amount is required''
      else (let amount = parseFloat toD (get_prop formData ''amount'') in
        if amount = NaN then Some ''Amount must be a valid number''
        else if js_le amount (Fin 0) then Some ''Amount must be greater than $0.00''
        else if js_gt amount (Fin 999999) then Some ''Amount is too large''
        else if \<not> truthy (get_prop formData ''category'') then Some ''Category is required''
        else None))"

section \<open>Client: the API layer\<close>

text \<open>
  \<open>fetch\<close> either rejects before any response or resolves with a response: its status,
  status text and what \<open>response.json()\<close> gives.  The body is no JSON at all, the JSON
  \<open>null\<close>, or a JSON value with the content of its \<open>error\<close> property (\<open>None\<close> when that is
  missing or null): the message, the code and the details found there.
\<close>

record 'd error_object =
  eo_message :: jsval
  eo_code :: jsval
  eo_details :: "'d option"

datatype 'd json_body = NotJSON | JSONNull | JSONValue "'d error_object option"

record 'd http_response =
  http_status :: nat
  statusText :: string
  json :: "'d json_body"

datatype 'd fetch_outcome = Rejected string | Responded "'d http_response"

text \<open>
  What the client throws: the error built from the error envelope with its
  \<open>statusCode\<close>, \<open>code\<close> and \<open>details\<close>; a plain error with a message only; or the
  generic network error wrapping the original one.
\<close>

datatype 'd client_error =
    ApiError string nat jsval "'d option"
  | PlainError string
  | NetworkError "'d client_error"

function show_nat :: "nat \<Rightarrow> string" where
  "show_nat n = (if n < 10 then [''0123456789'' ! n] else show_nat (n div 10) @ [''0123456789'' ! (n mod 10)])"
  by pat_completeness auto
termination
  by (relation "measure (\<lambda>n. n)") auto

definition handleErrorResponse :: "(jsnum \<Rightarrow> string) \<Rightarrow> 'd http_response \<Rightarrow> 'd client_error" where
  "handleErrorResponse numToString response =
     (case json response of
        NotJSON \<Rightarrow> PlainError (''HTTP '' @ show_nat (http_status response) @ '': '' @ statusText response)
      | JSONNull \<Rightarrow> PlainError (''HTTP '' @ show_nat (http_status response) @ '': '' @ statusText response)
      | JSONValue None \<Rightarrow> ApiError ''An error occurred'' (http_status response) JUndefined None
      | JSONValue (Some e) \<Rightarrow>
          ApiError (if truthy (eo_message e)
                    then (case eo_message e of JStr s \<Rightarrow> s | JBool b \<Rightarrow> ''true'' | JNum n \<Rightarrow> numToString n | _ \<Rightarrow> [])
                    else ''An error occurred'')
                   (http_status response) (eo_code e) (eo_details e))"

definition handleNetworkError :: "'d client_error \<Rightarrow> 'd client_error" where
  "handleNetworkError error = NetworkError error"

text \<open>The \<open>statusCode\<close> of a thrown error, if it has one.\<close>

fun error_statusCode :: "'d client_error \<Rightarrow> nat option" where
  "error_statusCode (ApiError m st c d) = Some st"
| "error_statusCode e = None"

definition response_ok :: "'d http_response \<Rightarrow> bool" where
  "response_ok response = (200 \<le> http_status response \<and> http_status response \<le> 299)"

text \<open>
  \<open>fetchAPI\<close>: everything thrown inside the \<open>try\<close>, the error of a non-OK response
  included, passes through the \<open>catch\<close>, which rethrows an error with a truthy
  \<open>statusCode\<close> and replaces any other by the network error.
\<close>

definition fetchAPI_catch :: "'d client_error \<Rightarrow> 'd client_error" where
  "fetchAPI_catch error =
     (case error_statusCode error of
        Some st \<Rightarrow> if st \<noteq> 0 then error else handleNetworkError error
      | None \<Rightarrow> handleNetworkError error)"

definition fetchAPI :: "(jsnum \<Rightarrow> string) \<Rightarrow> 'd fetch_outcome \<Rightarrow> 'd client_error + 'd json_body" where
  "fetchAPI numToString outcome =
     (case outcome of
        Rejected m \<Rightarrow> Inl (fetchAPI_catch (PlainError m))
      | Responded response \<Rightarrow>
          if \<not> response_ok response then Inl (fetchAPI_catch (handleErrorResponse numToString response))
          else (case json response of
                  NotJSON \<Rightarrow> Inl (fetchAPI_catch (PlainError ''Unexpected token in JSON''))
                | data \<Rightarrow> Inr data))"

section \<open>A sample environment, sample requests and tables\<close>

text \<open>
  An environment to run the code in: noon UTC on the tenth of November 2023, decimal
  values as they are, decimal texts as the numbers SQLite reads in them.  Its sum and its
  rounding are the exact ones; on the sample tables below, whose amounts are multiples of a
  quarter, these are what binary64 arithmetic gives.  The text of a number is not needed
  below.
\<close>

fun sample_value :: "jsval \<Rightarrow> rat" where
  "sample_value (JNum (Fin q)) = q"
| "sample_value v = 0"

definition sample_sum :: "jsval list \<Rightarrow> jsval" where
  "sample_sum vs = JNum (Fin (sum_list (map sample_value vs)))"

fun sample_round2 :: "jsval \<Rightarrow> jsval" where
  "sample_round2 (JNum (Fin q)) =
     JNum (Fin (if q < 0 then - (of_int \<lfloor>- q * 100 + 1 / 2\<rfloor> / 100) else of_int \<lfloor>q * 100 + 1 / 2\<rfloor> / 100))"
| "sample_round2 v = v"

definition sample_env :: env where
  "sample_env =
     \<lparr>toDouble = Fin,
      numberToString = (\<lambda>n. ''0''),
      sqlNumeric = (\<lambda>s. case scan_literal s of Some (LDecimal q, []) \<Rightarrow> Some (Fin q) | _ \<Rightarrow> None),
      sqlSum = sample_sum,
      sqlRound2 = sample_round2,
      nowMs = 1699617600000,
      timestamp = ''2023-11-10 12:00:00'',
      development = True\<rparr>"



definition body_zero :: jsobj where
  "body_zero = [''date'' \<mapsto> JStr ''2023-11-10'', ''amount'' \<mapsto> JNum (Fin 0), ''category'' \<mapsto> JStr ''Food'']"

definition body_lunch :: jsobj where
  "body_lunch = [''date'' \<mapsto> JStr ''2023-11-10'', ''amount'' \<mapsto> JStr ''42.50'', ''category'' \<mapsto> JStr ''Food'']"

definition row_lunch :: expense_row where
  "row_lunch = \<lparr>row_id = 1, row_date = JStr ''2023-11-10'', row_amount = JNum (Fin (85 / 2)),
                 row_category = JStr ''Food'', row_description = JNull,
                 row_created_at = JStr ''2023-11-10 12:00:00''\<rparr>"

definition row_travel :: expense_row where
  "row_travel = \<lparr>row_id = 1, row_date = JStr ''2023-11-09'', row_amount = JNum (Fin 30),
                  row_category = JStr ''Travel'', row_description = JNull,
                  row_created_at = JStr ''2023-11-09 08:00:00''\<rparr>"

definition db_travel :: database where
  "db_travel = \<lparr>rows = [row_travel], seq = 1\<rparr>"

definition db_lunch :: database where
  "db_lunch = \<lparr>rows = [row_lunch], seq = 1\<rparr>"

text \<open>A table whose one row has the id \<open>2^53\<close>, the last id handed out.\<close>

definition row_old :: expense_row where
  "row_old = \<lparr>row_id = 9007199254740992, row_date = JStr ''2023-11-09'', row_amount = JNum (Fin 30),
               row_category = JStr ''Transport'', row_description = JNull,
               row_created_at = JStr ''2023-11-09 08:00:00''\<rparr>"

definition db_old :: database where
  "db_old = \<lparr>rows = [row_old], seq = 9007199254740992\<rparr>"

text \<open>The payloads \<open>{description: 5}\<close> and \<open>{}\<close>.\<close>

definition payload_description_5 :: jsobj where
  "payload_description_5 = [''description'' \<mapsto> JNum (Fin 5)]"

definition body_empty :: jsobj where
  "body_empty = Map.empty"

text \<open>The query strings \<open>?minAmount=&maxAmount=15\<close>, \<open>?minAmount=10&maxAmount=50\<close> and
  \<open>?minAmount=100&maxAmount=200\<close>, and the options \<open>{minAmount: 0, maxAmount: 15}\<close>.\<close>

definition query_empty_min :: jsobj where
  "query_empty_min = [''minAmount'' \<mapsto> JStr [], ''maxAmount'' \<mapsto> JStr ''15'']"

definition query_10_50 :: jsobj where
  "query_10_50 = [''minAmount'' \<mapsto> JStr ''10'', ''maxAmount'' \<mapsto> JStr ''50'']"

definition query_100_200 :: jsobj where
  "query_100_200 = [''minAmount'' \<mapsto> JStr ''100'', ''maxAmount'' \<mapsto> JStr ''200'']"

definition options_zero_min :: jsobj where
  "options_zero_min = [''minAmount'' \<mapsto> JNum (Fin 0), ''maxAmount'' \<mapsto> JNum (Fin 15)]"


text \<open>The form filled in on the tenth of November 2023 with that day's date, and a
  502 answer of a gateway whose body is an HTML page.\<close>

definition form_today :: jsobj where
  "form_today = [''date'' \<mapsto> JStr ''2023-11-10'', ''amount'' \<mapsto> JStr ''5'',
                 ''category'' \<mapsto> JStr ''Food'', ''description'' \<mapsto> JStr []]"

definition bad_gateway :: "unit http_response" where
  "bad_gateway = \<lparr>http_status = 502, statusText = ''Bad Gateway'', json = NotJSON\<rparr>"

section \<open>Properties of the validator\<close>

lemma date_errors_fields:
  "map field (date_errors E e) = [] \<or> map field (date_errors E e) = [''date'']"
  by (simp add: date_errors_def)

lemma amount_errors_fields:
  "map field (amount_errors E e) = [] \<or> map field (amount_errors E e) = [''amount'']"
  by (simp add: amount_errors_def)

lemma category_errors_fields:
  "map field (category_errors e) = [] \<or> map field (category_errors e) = [''category'']"
  by (simp add: category_errors_def)

lemma description_errors_fields:
  "map field (description_errors e) = [] \<or> map field (description_errors e) = [''description'']"
  by (simp add: description_errors_def)

lemma errors_validateExpense:
  "errors (validateExpense E e) =
     date_errors E e @ amount_errors E e @ category_errors e @ description_errors e"
  by (simp add: validateExpense_def Let_def)

lemma isValid_validateExpense:
  "isValid (validateExpense E e) = (errors (validateExpense E e) = [])"
  by (simp add: validateExpense_def Let_def)

lemma date_errors_rules:
  "date_errors E e =
     map (\<lambda>m. \<lparr>field = ''date'', message = m\<rparr>) (first_failing (date_rules E) (get_prop e ''date''))"
  by (cases "truthy (get_prop e ''date'')"; cases "isValidDate (get_prop e ''date'')";
      cases "date_after_now E (get_prop e ''date'')")
     (simp_all add: date_errors_def first_failing_def date_rules_def)

lemma amount_errors_rules:
  "amount_errors E e =
     map (\<lambda>m. \<lparr>field = ''amount'', message = m\<rparr>) (first_failing (amount_rules E) (get_prop e ''amount''))"
  by (cases "get_prop e ''amount'' = JUndefined \<or> get_prop e ''amount'' = JNull \<or> get_prop e ''amount'' = JStr []";
      cases "isNaN (get_prop e ''amount'')";
      cases "js_le (parseFloat (toDouble E) (get_prop e ''amount'')) (Fin 0)";
      cases "js_gt (parseFloat (toDouble E) (get_prop e ''amount'')) (Fin 999999)")
     (simp_all add: amount_errors_def first_failing_def amount_rules_def)

lemma join_categories:
  "join '', '' VALID_CATEGORIES =
     ''Food, Transport, Entertainment, Utilities, Healthcare, Shopping, Other''"
  by (simp add: VALID_CATEGORIES_def)

lemma category_errors_rules:
  "category_errors e =
     map (\<lambda>m. \<lparr>field = ''category'', message = m\<rparr>) (first_failing category_rules (get_prop e ''category''))"
  by (cases "truthy (get_prop e ''category'')"; cases "includes_category (get_prop e ''category'')")
     (simp_all add: category_errors_def first_failing_def category_rules_def join_categories)

lemma description_errors_rules:
  "description_errors e =
     map (\<lambda>m. \<lparr>field = ''description'', message = m\<rparr>)
       (first_failing description_rules (get_prop e ''description''))"
  by (cases "truthy (get_prop e ''description'')"; cases "is_string (get_prop e ''description'')";
      cases "255 < str_length (get_prop e ''description'')")
     (simp_all add: description_errors_def first_failing_def description_rules_def)

text \<open>
  Claim C10.  For every candidate record, \<open>validateExpense\<close> reports for each field, in the
  order date, amount, category, description, the message of the first of that field's rules
  that fails and nothing else: so at most one error per field, in that order; and
  \<open>isValid\<close> holds exactly when the list of errors is empty.
\<close>

theorem validateExpense_reports_first_failures:
  "errors (validateExpense E expense) = first_failures E expense
   \<and> subseq (map field (errors (validateExpense E expense)))
        [''date'', ''amount'', ''category'', ''description'']
   \<and> length (filter (\<lambda>e. field e = f) (errors (validateExpense E expense))) \<le> 1
   \<and> (isValid (validateExpense E expense) \<longleftrightarrow> errors (validateExpense E expense) = [])"
proof -
  let ?fs = "map field (errors (validateExpense E expense))"
  have ff: "errors (validateExpense E expense) = first_failures E expense"
    by (simp add: errors_validateExpense first_failures_def field_rules_def date_errors_rules
        amount_errors_rules category_errors_rules description_errors_rules)
  have fs: "?fs = map field (date_errors E expense) @ map field (amount_errors E expense)
      @ map field (category_errors expense) @ map field (description_errors expense)"
    by (simp add: errors_validateExpense)
  have sub: "subseq ?fs [''date'', ''amount'', ''category'', ''description'']"
    using date_errors_fields [of E expense] amount_errors_fields [of E expense]
      category_errors_fields [of expense] description_errors_fields [of expense]
    unfolding fs by (elim disjE) simp_all
  have "length (filter (\<lambda>x. x = f) ?fs) \<le> 1"
    using date_errors_fields [of E expense] amount_errors_fields [of E expense]
      category_errors_fields [of expense] description_errors_fields [of expense]
    unfolding fs by (elim disjE) auto
  moreover have "length (filter (\<lambda>e. field e = f) (errors (validateExpense E expense)))
      = length (filter (\<lambda>x. x = f) ?fs)"
    by (simp add: filter_map comp_def)
  ultimately show ?thesis using ff sub isValid_validateExpense by simp
qed

text \<open>
  On the empty record two rules of the date fail, and two of the amount (it is missing
  and it is not a number); the first of each is what is reported.
\<close>

theorem validateExpense_reports_first_failures_witness:
  "length (filter (\<lambda>r. fst r (get_prop body_empty ''date'')) (date_rules sample_env)) = 2
   \<and> length (filter (\<lambda>r. fst r (get_prop body_empty ''amount'')) (amount_rules sample_env)) = 2
   \<and> errors (validateExpense sample_env body_empty) =
       [\<lparr>field = ''date'', message = ''Date is required''\<rparr>,
        \<lparr>field = ''amount'', message = ''Amount is required''\<rparr>,
        \<lparr>field = ''category'', message = ''Category is required''\<rparr>]
   \<and> \<not> isValid (validateExpense sample_env body_empty)"
proof -
  have g: "get_prop body_empty k = JUndefined" for k
    by (simp add: body_empty_def get_prop_def)
  have d: "length (filter (\<lambda>r. fst r (get_prop body_empty ''date'')) (date_rules sample_env)) = 2"
    by (simp add: g date_rules_def)
  have a: "length (filter (\<lambda>r. fst r (get_prop body_empty ''amount'')) (amount_rules sample_env)) = 2"
    by (simp add: g amount_rules_def js_le_def js_gt_def)
  have f: "first_failures sample_env body_empty =
       [\<lparr>field = ''date'', message = ''Date is required''\<rparr>,
        \<lparr>field = ''amount'', message = ''Amount is required''\<rparr>,
        \<lparr>field = ''category'', message = ''Category is required''\<rparr>]"
    by (simp add: first_failures_def field_rules_def first_failing_def g date_rules_def amount_rules_def
        category_rules_def description_rules_def js_le_def js_gt_def)
  show ?thesis
    using validateExpense_reports_first_failures [of sample_env body_empty "''date''"] d a f by simp
qed

section \<open>Creating an expense\<close>

text \<open>An integer up to \<open>2^53\<close> is a binary64 number; \<open>2^53 + 1\<close> is not and rounds to \<open>2^53\<close>.\<close>

lemma ulp_exp_small: "m < 9007199254740992 \<Longrightarrow> ulp_exp m = 0"
  by (subst ulp_exp.simps) simp

lemma double_of_int_small:
  assumes "\<bar>n\<bar> < 9007199254740992"
  shows "double_of_int n = n"
proof -
  from assms have "nat \<bar>n\<bar> < 9007199254740992" by linarith
  then have u: "ulp_exp (nat \<bar>n\<bar>) = 0" by (rule ulp_exp_small)
  show ?thesis
    unfolding double_of_int_def Let_def u by (simp add: sgn_mult_abs)
qed

lemma ulp_exp_2p53: "ulp_exp 9007199254740992 = 1" "ulp_exp 9007199254740993 = 1"
  by (subst ulp_exp.simps, simp add: ulp_exp_small)+

lemma double_of_int_2p53:
  "double_of_int 9007199254740992 = 9007199254740992"
  "double_of_int 9007199254740993 = 9007199254740992"
  unfolding double_of_int_def Let_def by (simp_all add: ulp_exp_2p53)

lemma double_of_int_exact:
  assumes "0 \<le> n" and "n \<le> 9007199254740992"
  shows "double_of_int n = n"
proof (cases "n = 9007199254740992")
  case True
  then show ?thesis by (simp add: double_of_int_2p53)
next
  case False
  with assms have "\<bar>n\<bar> < 9007199254740992" by simp
  then show ?thesis by (rule double_of_int_small)
qed

lemma sanitizeExpense_Inr:
  assumes "sanitizeExpense E b = Inr s"
  obtains d c ds where
    "optional_trim ''date'' (get_prop b ''date'') = Inr d"
    "optional_trim ''category'' (get_prop b ''category'') = Inr c"
    "optional_trim ''description'' (get_prop b ''description'') = Inr ds"
    "s = [''date'' \<mapsto> d, ''amount'' \<mapsto> JNum (parseFloat (toDouble E) (get_prop b ''amount'')),
          ''category'' \<mapsto> c, ''description'' \<mapsto> or_null ds]"
  using assms by (auto simp: sanitizeExpense_def split: sum.splits)


lemma amount_errors_number:
  "amount_errors E (s :: jsobj) =
     (if get_prop s ''amount'' = JNum a then
        (if a = NaN then [\<lparr>field = ''amount'', message = ''Amount must be a number''\<rparr>]
         else if js_le a (Fin 0) then [\<lparr>field = ''amount'', message = ''Amount must be greater than 0''\<rparr>]
         else if js_gt a (Fin 999999) then [\<lparr>field = ''amount'', message = ''Amount too large''\<rparr>]
         else [])
      else amount_errors E s)"
  by (simp add: amount_errors_def)

lemma createExpense_invalid:
  assumes "sanitizeExpense E b = Inr s" and "\<not> isValid (validateExpense E s)"
  shows "createExpense E b db =
     (\<lparr>status = 400,
       body = Failure ''VALIDATION_ERROR'' ''Validation failed''
                (if development E then Some (Some (errors (validateExpense E s))) else None)\<rparr>, db)"
  using assms by (simp add: createExpense_def errorHandler_def validation_error_def)

text \<open>
  Claim C3.  When the sanitized amount is at most 0 or above 999999, \<open>validateExpense\<close>
  reports an error for the amount field, the create handler answers 400
  \<open>VALIDATION_ERROR\<close>, and the table is the one before the request: nothing is inserted.
\<close>

theorem amount_out_of_range_rejected:
  assumes "sanitizeExpense E req_body = Inr sanitized"
    and "get_prop sanitized ''amount'' = JNum a"
    and "js_le a (Fin 0) \<or> js_gt a (Fin 999999)"
  shows "\<lparr>field = ''amount'',
           message = (if js_le a (Fin 0) then ''Amount must be greater than 0'' else ''Amount too large'')\<rparr>
           \<in> set (errors (validateExpense E sanitized))
     \<and> createExpense E req_body db =
         (\<lparr>status = 400,
           body = Failure ''VALIDATION_ERROR'' ''Validation failed''
                    (if development E then Some (Some (errors (validateExpense E sanitized))) else None)\<rparr>,
          db)"
proof -
  have "a \<noteq> NaN" using assms(3) by (auto simp: js_le_def js_gt_def)
  then have ae: "amount_errors E sanitized =
      [\<lparr>field = ''amount'',
        message = (if js_le a (Fin 0) then ''Amount must be greater than 0'' else ''Amount too large'')\<rparr>]"
    using assms(2,3) by (subst amount_errors_number [where a = a]) auto
  then have mem: "\<lparr>field = ''amount'',
        message = (if js_le a (Fin 0) then ''Amount must be greater than 0'' else ''Amount too large'')\<rparr>
      \<in> set (errors (validateExpense E sanitized))"
    by (simp add: errors_validateExpense)
  then have "\<not> isValid (validateExpense E sanitized)"
    by (auto simp: isValid_validateExpense)
  with assms(1) mem show ?thesis
    using createExpense_invalid by blast
qed

theorem amount_out_of_range_rejected_witness:
  "sanitizeExpense sample_env body_zero =
      Inr [''date'' \<mapsto> JStr ''2023-11-10'', ''amount'' \<mapsto> JNum (Fin 0),
           ''category'' \<mapsto> JStr ''Food'', ''description'' \<mapsto> JNull]
   \<and> js_le (Fin 0) (Fin 0)
   \<and> createExpense sample_env body_zero initializeDatabase =
       (\<lparr>status = 400,
         body = Failure ''VALIDATION_ERROR'' ''Validation failed''
                  (Some (Some [\<lparr>field = ''amount'', message = ''Amount must be greater than 0''\<rparr>]))\<rparr>,
        initializeDatabase)"
proof -
  let ?s = "[''date'' \<mapsto> JStr ''2023-11-10'', ''amount'' \<mapsto> JNum (Fin 0),
           ''category'' \<mapsto> JStr ''Food'', ''description'' \<mapsto> JNull]"
  have s: "sanitizeExpense sample_env body_zero = Inr ?s"
    by (simp add: sanitizeExpense_def body_zero_def optional_trim_def get_prop_def trim_def
        is_ws_def or_null_def sample_env_def)
  have a: "get_prop ?s ''amount'' = JNum (Fin 0)"
    by (simp add: get_prop_def)
  have r: "js_le (Fin 0) (Fin 0) \<or> js_gt (Fin 0) (Fin 999999)"
    by (simp add: js_le_def)
  have v: "errors (validateExpense sample_env ?s) =
      [\<lparr>field = ''amount'', message = ''Amount must be greater than 0''\<rparr>]"
    by (simp add: errors_validateExpense date_errors_def amount_errors_def category_errors_def
        description_errors_def get_prop_def parseDate_def is_digit_def digits_val_def digit_val_def
        MakeDay_def DayFromYear_def days_before_month_def leap_year_def msPerDay_def
        sample_env_def js_le_def VALID_CATEGORIES_def)
  show ?thesis
    using amount_out_of_range_rejected [OF s a r, of initializeDatabase] s v
    by (simp add: js_le_def sample_env_def)
qed










lemma js_range:
  "a \<noteq> NaN \<Longrightarrow> \<not> js_le a (Fin 0) \<Longrightarrow> \<not> js_gt a (Fin 999999) \<Longrightarrow> \<exists>q. a = Fin q \<and> 0 < q \<and> q \<le> 999999"
  by (cases a) (auto simp: js_le_def js_gt_def)

text \<open>What a sanitized record that passes validation looks like.\<close>

lemma truthy_trimmed:
  "optional_trim n v = Inr w \<Longrightarrow> truthy w \<Longrightarrow> \<exists>t. w = JStr t \<and> t \<noteq> []"
  by (cases v) (simp_all add: optional_trim_def, force+)

lemma or_null_trimmed:
  "optional_trim n v = Inr w \<Longrightarrow> or_null w = JNull \<or> (\<exists>t. or_null w = JStr t \<and> t \<noteq> [])"
  by (cases v) (simp_all add: optional_trim_def or_null_def, force+)

lemma date_errors_Nil: "date_errors E s = [] \<Longrightarrow> truthy (get_prop s ''date'')"
  by (simp add: date_errors_def split: if_splits)

lemma category_errors_Nil:
  "category_errors s = [] \<Longrightarrow> truthy (get_prop s ''category'') \<and> includes_category (get_prop s ''category'')"
  by (simp add: category_errors_def split: if_splits)

lemma amount_errors_Nil:
  "amount_errors E s = [] \<Longrightarrow> get_prop s ''amount'' = JNum a \<Longrightarrow>
     a \<noteq> NaN \<and> \<not> js_le a (Fin 0) \<and> \<not> js_gt a (Fin 999999)"
  by (simp add: amount_errors_def split: if_splits)

lemma valid_sanitized:
  assumes "sanitizeExpense E b = Inr s" and "isValid (validateExpense E s)"
  shows "\<exists>d q c. get_prop s ''date'' = JStr d \<and> d \<noteq> [] \<and>
           get_prop s ''amount'' = JNum (Fin q) \<and> 0 < q \<and> q \<le> 999999 \<and>
           get_prop s ''category'' = JStr c \<and> c \<in> set VALID_CATEGORIES \<and>
           (get_prop s ''description'' = JNull \<or> (\<exists>t. get_prop s ''description'' = JStr t \<and> t \<noteq> []))"
proof -
  from assms(1) obtain d c ds where
    d: "optional_trim ''date'' (get_prop b ''date'') = Inr d" and
    c: "optional_trim ''category'' (get_prop b ''category'') = Inr c" and
    ds: "optional_trim ''description'' (get_prop b ''description'') = Inr ds" and
    s: "s = [''date'' \<mapsto> d, ''amount'' \<mapsto> JNum (parseFloat (toDouble E) (get_prop b ''amount'')),
          ''category'' \<mapsto> c, ''description'' \<mapsto> or_null ds]"
    by (rule sanitizeExpense_Inr)
  have sd: "get_prop s ''date'' = d" and sc: "get_prop s ''category'' = c"
    and sds: "get_prop s ''description'' = or_null ds"
    and sa: "get_prop s ''amount'' = JNum (parseFloat (toDouble E) (get_prop b ''amount''))"
    by (simp_all add: s get_prop_def)
  from assms(2) have e: "date_errors E s = []" "amount_errors E s = []" "category_errors s = []"
    by (simp_all add: isValid_validateExpense errors_validateExpense)
  from date_errors_Nil [OF e(1)] have "truthy d" by (simp add: sd)
  from truthy_trimmed [OF d this] obtain t where t: "d = JStr t" "t \<noteq> []" by blast
  from category_errors_Nil [OF e(3)] have tc: "truthy c" and ic: "includes_category c"
    by (simp_all add: sc)
  from truthy_trimmed [OF c tc] obtain u where u: "c = JStr u" by blast
  with ic have u2: "u \<in> set VALID_CATEGORIES" by simp
  from js_range amount_errors_Nil [OF e(2) sa] obtain q where
    q: "parseFloat (toDouble E) (get_prop b ''amount'') = Fin q" "0 < q" "q \<le> 999999"
    by blast
  from or_null_trimmed [OF ds]
  have "get_prop s ''description'' = JNull \<or> (\<exists>t. get_prop s ''description'' = JStr t \<and> t \<noteq> [])"
    by (simp add: sds)
  then show ?thesis using t u u2 q by (simp add: sd sc sa)
qed

lemma find_append_last:
  "list_all (\<lambda>x. \<not> P x) xs \<Longrightarrow> P y \<Longrightarrow> find P (xs @ [y]) = Some y"
  by (induction xs) auto

lemma run_insert_ok:
  assumes "get_prop s ''date'' = JStr d" and "get_prop s ''amount'' = JNum (Fin q)"
    and "get_prop s ''category'' = JStr c"
    and "get_prop s ''description'' = JNull \<or> (\<exists>t. get_prop s ''description'' = JStr t \<and> t \<noteq> [])"
    and "seq db < 9223372036854775807"
  shows "addExpense E s db =
     (Inr (getExpenseById E (JNum (Fin (of_int (double_of_int (seq db + 1)))))
        \<lparr>rows = rows db @ [\<lparr>row_id = seq db + 1, row_date = get_prop s ''date'',
            row_amount = get_prop s ''amount'', row_category = get_prop s ''category'',
            row_description = get_prop s ''description'', row_created_at = JStr (timestamp E)\<rparr>],
         seq = seq db + 1\<rparr>),
      \<lparr>rows = rows db @ [\<lparr>row_id = seq db + 1, row_date = get_prop s ''date'',
            row_amount = get_prop s ''amount'', row_category = get_prop s ''category'',
            row_description = get_prop s ''description'', row_created_at = JStr (timestamp E)\<rparr>],
         seq = seq db + 1\<rparr>)"
  using assms by (auto simp: addExpense_def run_insert_def not_null_failure_def or_null_def Let_def)

lemma getExpenseById_new:
  assumes "wf_db db" and "row_id r = seq db + 1"
  shows "getExpenseById E (JNum (Fin (of_int (seq db + 1)))) \<lparr>rows = rows db @ [r], seq = n\<rparr>
           = Some (row_object r)"
proof -
  have "list_all (\<lambda>x. \<not> id_matches E (JNum (Fin (of_int (seq db + 1)))) (row_id x)) (rows db)"
    using assms(1) by (auto simp: wf_db_def list_all_iff)
  then show ?thesis
    using assms(2) by (simp add: getExpenseById_def find_append_last)
qed

lemma wf_db_insert:
  assumes "wf_db db" and "row_id r = seq db + 1"
  shows "wf_db \<lparr>rows = rows db @ [r], seq = seq db + 1\<rparr>"
  using assms by (auto simp: wf_db_def list_all_iff)

lemma wf_db_seq: "wf_db db \<Longrightarrow> 0 \<le> seq db"
  by (simp add: wf_db_def)

text \<open>
  Claim C1, amended.  On a well-formed table whose id counter is below \<open>2^53\<close>, for a body
  that sanitizes to a record passing validation, \<open>createExpense\<close> answers 201 with the stored
  record, \<open>getExpenseById\<close> on the new id reads that same record back, and it agrees with
  the sanitized input on date, amount, category and description; the id is the next one
  and \<open>created_at\<close> the current time.
\<close>

theorem create_then_read_back:
  assumes "wf_db db" and "seq db < 9007199254740992"
    and "sanitizeExpense E req_body = Inr sanitized"
    and "isValid (validateExpense E sanitized)"
  shows "\<exists>stored db'.
       createExpense E req_body db =
         (\<lparr>status = 201, body = Data (Some stored) ''Expense created successfully''\<rparr>, db')
     \<and> getExpenseById E (get_prop stored ''id'') db' = Some stored
     \<and> get_prop stored ''date'' = get_prop sanitized ''date''
     \<and> get_prop stored ''amount'' = get_prop sanitized ''amount''
     \<and> get_prop stored ''category'' = get_prop sanitized ''category''
     \<and> get_prop stored ''description'' = get_prop sanitized ''description''
     \<and> get_prop stored ''id'' = JNum (Fin (of_int (seq db + 1)))
     \<and> get_prop stored ''created_at'' = JStr (timestamp E)
     \<and> dom stored = {''id'', ''date'', ''amount'', ''category'', ''description'', ''created_at''}
     \<and> wf_db db'"
proof -
  let ?r = "\<lparr>row_id = seq db + 1, row_date = get_prop sanitized ''date'',
            row_amount = get_prop sanitized ''amount'', row_category = get_prop sanitized ''category'',
            row_description = get_prop sanitized ''description'', row_created_at = JStr (timestamp E)\<rparr>"
  let ?db = "\<lparr>rows = rows db @ [?r], seq = seq db + 1\<rparr>"
  from valid_sanitized [OF assms(3,4)] obtain d q c where
    v: "get_prop sanitized ''date'' = JStr d" "get_prop sanitized ''amount'' = JNum (Fin q)"
       "get_prop sanitized ''category'' = JStr c"
       "get_prop sanitized ''description'' = JNull \<or> (\<exists>t. get_prop sanitized ''description'' = JStr t \<and> t \<noteq> [])"
    by blast
  have x: "double_of_int (seq db + 1) = seq db + 1"
    using wf_db_seq [OF assms(1)] assms(2) by (intro double_of_int_exact) simp_all
  have full: "seq db < 9223372036854775807" using assms(2) by simp
  have g: "getExpenseById E (JNum (Fin (of_int (seq db + 1)))) ?db = Some (row_object ?r)"
    using assms(1) by (intro getExpenseById_new) simp_all
  have a: "addExpense E sanitized db = (Inr (Some (row_object ?r)), ?db)"
    using run_insert_ok [OF v full, of E] g by (simp add: x)
  have c: "createExpense E req_body db =
      (\<lparr>status = 201, body = Data (Some (row_object ?r)) ''Expense created successfully''\<rparr>, ?db)"
    using assms(3,4) a by (simp add: createExpense_def)
  have i: "get_prop (row_object ?r) ''id'' = JNum (Fin (of_int (seq db + 1)))"
    by (simp add: row_object_def get_prop_def x)
  have w: "wf_db ?db" using assms(1) by (intro wf_db_insert) simp_all
  have d: "dom (row_object ?r) = {''id'', ''date'', ''amount'', ''category'', ''description'', ''created_at''}"
    unfolding row_object_def dom_fun_upd by (simp add: insert_commute)
  have f: "get_prop (row_object ?r) ''date'' = get_prop sanitized ''date''"
    "get_prop (row_object ?r) ''amount'' = get_prop sanitized ''amount''"
    "get_prop (row_object ?r) ''category'' = get_prop sanitized ''category''"
    "get_prop (row_object ?r) ''description'' = get_prop sanitized ''description''"
    "get_prop (row_object ?r) ''created_at'' = JStr (timestamp E)"
    by (simp_all add: row_object_def get_prop_def)
  show ?thesis
    apply (rule exI [of _ "row_object ?r"], rule exI [of _ ?db])
    using c g w i d f by simp
qed

lemma sanitize_body_lunch:
  "sanitizeExpense sample_env body_lunch =
     Inr [''date'' \<mapsto> JStr ''2023-11-10'', ''amount'' \<mapsto> JNum (Fin (85 / 2)),
          ''category'' \<mapsto> JStr ''Food'', ''description'' \<mapsto> JNull]"
proof -
  have p: "parseFloat Fin (JStr ''42.50'') = Fin (85 / 2)"
    by (simp add: scan_literal_def scan_sign_def scan_unsigned_def scan_exponent_def
        trim_start_def is_ws_def is_digit_def digits_val_def digit_val_def pow10_def literal_value_def)
  then show ?thesis
    by (simp add: sanitizeExpense_def body_lunch_def optional_trim_def get_prop_def trim_def
        is_ws_def or_null_def sample_env_def)
qed

lemma valid_body_lunch:
  "isValid (validateExpense sample_env
     [''date'' \<mapsto> JStr ''2023-11-10'', ''amount'' \<mapsto> JNum (Fin (85 / 2)),
      ''category'' \<mapsto> JStr ''Food'', ''description'' \<mapsto> JNull])"
proof -
  have "errors (validateExpense sample_env
     [''date'' \<mapsto> JStr ''2023-11-10'', ''amount'' \<mapsto> JNum (Fin (85 / 2)),
      ''category'' \<mapsto> JStr ''Food'', ''description'' \<mapsto> JNull]) = []"
    by (simp add: errors_validateExpense date_errors_def amount_errors_def category_errors_def
        description_errors_def get_prop_def parseDate_def is_digit_def digits_val_def digit_val_def
        MakeDay_def DayFromYear_def days_before_month_def leap_year_def msPerDay_def
        sample_env_def js_le_def js_gt_def VALID_CATEGORIES_def)
  then show ?thesis by (simp add: isValid_validateExpense)
qed

theorem create_then_read_back_witness:
  "wf_db initializeDatabase
   \<and> seq initializeDatabase < 9007199254740992
   \<and> sanitizeExpense sample_env body_lunch =
       Inr [''date'' \<mapsto> JStr ''2023-11-10'', ''amount'' \<mapsto> JNum (Fin (85 / 2)),
            ''category'' \<mapsto> JStr ''Food'', ''description'' \<mapsto> JNull]
   \<and> isValid (validateExpense sample_env
       [''date'' \<mapsto> JStr ''2023-11-10'', ''amount'' \<mapsto> JNum (Fin (85 / 2)),
        ''category'' \<mapsto> JStr ''Food'', ''description'' \<mapsto> JNull])
   \<and> createExpense sample_env body_lunch initializeDatabase =
       (\<lparr>status = 201, body = Data (Some (row_object row_lunch)) ''Expense created successfully''\<rparr>,
        \<lparr>rows = [row_lunch], seq = 1\<rparr>)
   \<and> getExpenseById sample_env (JNum (Fin 1)) \<lparr>rows = [row_lunch], seq = 1\<rparr> = Some (row_object row_lunch)"
proof -
  let ?s = "[''date'' \<mapsto> JStr ''2023-11-10'', ''amount'' \<mapsto> JNum (Fin (85 / 2)),
            ''category'' \<mapsto> JStr ''Food'', ''description'' \<mapsto> JNull]"
  have w: "wf_db initializeDatabase"
    by (simp add: wf_db_def initializeDatabase_def)
  have b: "seq initializeDatabase < 9007199254740992"
    by (simp add: initializeDatabase_def)
  note s = sanitize_body_lunch and v = valid_body_lunch
  have g: "getExpenseById sample_env (JNum (Fin 1)) \<lparr>rows = [row_lunch], seq = 1\<rparr> = Some (row_object row_lunch)"
    by (simp add: getExpenseById_def row_lunch_def)
  have c: "\<exists>stored db'. createExpense sample_env body_lunch initializeDatabase =
         (\<lparr>status = 201, body = Data (Some stored) ''Expense created successfully''\<rparr>, db')"
    using create_then_read_back [OF w b s v] by - (erule exE, erule exE, erule conjE, intro exI, assumption)
  have "createExpense sample_env body_lunch initializeDatabase =
       (\<lparr>status = 201, body = Data (Some (row_object row_lunch)) ''Expense created successfully''\<rparr>,
        \<lparr>rows = [row_lunch], seq = 1\<rparr>)"
    using s v g
    by (simp add: createExpense_def addExpense_def run_insert_def not_null_failure_def or_null_def
        get_prop_def initializeDatabase_def Let_def row_lunch_def sample_env_def double_of_int_small)
  with w b s v g c show ?thesis by simp
qed

text \<open>
  Claim C1 as stated fails once the ids leave the exact range of JavaScript numbers: on
  the table whose last id is \<open>2^53\<close> the new row gets the id \<open>2^53 + 1\<close>, \<open>lastID\<close> is
  the number \<open>2^53\<close>, and the answer is 201 with the old row, whose amount is 30 and not
  the 42.5 that was sent.
\<close>

theorem create_reads_back_old_row:
  "wf_db db_old
   \<and> sanitizeExpense sample_env body_lunch =
       Inr [''date'' \<mapsto> JStr ''2023-11-10'', ''amount'' \<mapsto> JNum (Fin (85 / 2)),
            ''category'' \<mapsto> JStr ''Food'', ''description'' \<mapsto> JNull]
   \<and> isValid (validateExpense sample_env
       [''date'' \<mapsto> JStr ''2023-11-10'', ''amount'' \<mapsto> JNum (Fin (85 / 2)),
        ''category'' \<mapsto> JStr ''Food'', ''description'' \<mapsto> JNull])
   \<and> fst (createExpense sample_env body_lunch db_old) =
       \<lparr>status = 201, body = Data (Some (row_object row_old)) ''Expense created successfully''\<rparr>
   \<and> map row_id (rows (snd (createExpense sample_env body_lunch db_old))) =
       [9007199254740992, 9007199254740993]
   \<and> get_prop (row_object row_old) ''amount'' = JNum (Fin 30)"
proof -
  have w: "wf_db db_old"
    by (simp add: wf_db_def db_old_def row_old_def)
  have a: "get_prop (row_object row_old) ''amount'' = JNum (Fin 30)"
    by (simp add: row_object_def row_old_def get_prop_def)
  have c: "createExpense sample_env body_lunch db_old =
      (\<lparr>status = 201, body = Data (Some (row_object row_old)) ''Expense created successfully''\<rparr>,
       \<lparr>rows = [row_old, \<lparr>row_id = 9007199254740993, row_date = JStr ''2023-11-10'',
                  row_amount = JNum (Fin (85 / 2)), row_category = JStr ''Food'',
                  row_description = JNull, row_created_at = JStr ''2023-11-10 12:00:00''\<rparr>],
         seq = 9007199254740993\<rparr>)"
    using sanitize_body_lunch valid_body_lunch
    by (simp add: createExpense_def addExpense_def run_insert_def not_null_failure_def or_null_def
        get_prop_def db_old_def Let_def sample_env_def double_of_int_2p53 getExpenseById_def)
       (simp add: row_old_def)
  have i: "row_id row_old = 9007199254740992"
    by (simp add: row_old_def)
  show ?thesis
    using w a i sanitize_body_lunch valid_body_lunch unfolding c by simp
qed

section \<open>The table stays well formed\<close>

text \<open>
  The empty table is well formed and every store operation and handler keeps it so: ids
  are handed out above the counter and never change.
\<close>

lemma wf_db_ids:
  "wf_db db = (distinct (map row_id (rows db)) \<and> 0 \<le> seq db
     \<and> (\<forall>i \<in> set (map row_id (rows db)). 0 < i \<and> i \<le> seq db))"
  by (auto simp: wf_db_def list_all_iff)

lemma wf_db_initial: "wf_db initializeDatabase"
  by (simp add: wf_db_def initializeDatabase_def)

lemma run_insert_shape:
  "run_insert E params db = Inr (i, db') \<Longrightarrow>
     \<exists>r. row_id r = seq db + 1 \<and> db' = \<lparr>rows = rows db @ [r], seq = seq db + 1\<rparr>"
  by (auto simp: run_insert_def Let_def split: option.splits if_splits)

lemma wf_db_addExpense:
  assumes "wf_db db" and "addExpense E expense db = (res, db')"
  shows "wf_db db'"
proof (cases "db' = db")
  case True
  with assms(1) show ?thesis by simp
next
  case False
  with assms(2) obtain params i where "run_insert E params db = Inr (i, db')"
    by (auto simp: addExpense_def Let_def split: sum.splits)
  from run_insert_shape [OF this] obtain r where
    "row_id r = seq db + 1" "db' = \<lparr>rows = rows db @ [r], seq = seq db + 1\<rparr>"
    by blast
  with assms(1) show ?thesis
    using wf_db_insert by blast
qed

lemma row_id_set_column: "row_id (set_column r a) = row_id r"
  by (simp add: set_column_def)

lemma row_id_foldl_set_column: "row_id (foldl set_column r sets) = row_id r"
  by (induction sets arbitrary: r) (simp_all add: row_id_set_column)

lemma run_update_ids:
  "run_update E sets ident db = Inr db' \<Longrightarrow>
     map row_id (rows db') = map row_id (rows db) \<and> seq db' = seq db"
  by (auto simp: run_update_def Let_def row_id_foldl_set_column split: list.splits)

lemma wf_db_updateExpense:
  assumes "wf_db db" and "updateExpense E ident updates db = (res, db')"
  shows "wf_db db'"
proof (cases "db' = db")
  case True
  with assms(1) show ?thesis by simp
next
  case False
  with assms(2) obtain sets where "run_update E sets ident db = Inr db'"
    by (auto simp: updateExpense_def Let_def split: sum.splits if_splits)
  from run_update_ids [OF this] assms(1) show ?thesis
    by (simp add: wf_db_ids)
qed

lemma wf_db_deleteExpense:
  "wf_db db \<Longrightarrow> deleteExpense E ident db = (res, db') \<Longrightarrow> wf_db db'"
  by (auto simp: deleteExpense_def wf_db_def list_all_iff Let_def distinct_map_filter split: if_splits)

lemma wf_db_createExpense:
  "wf_db db \<Longrightarrow> wf_db (snd (createExpense E req_body db))"
  by (auto simp: createExpense_def split: sum.splits prod.splits dest: wf_db_addExpense)

lemma wf_db_updateExpenseData:
  "wf_db db \<Longrightarrow> wf_db (snd (updateExpenseData E ident req_body db))"
  by (auto simp: updateExpenseData_def split: sum.splits prod.splits option.splits
      dest: wf_db_updateExpense)

lemma wf_db_removeExpense:
  "wf_db db \<Longrightarrow> wf_db (snd (removeExpense E ident db))"
  by (auto simp: removeExpense_def split: sum.splits prod.splits option.splits
      dest: wf_db_deleteExpense)

section \<open>Updating and deleting\<close>

lemma sample_numeric_1: "sqlNumeric sample_env ''1'' = Some (Fin 1)"
  by (simp add: sample_env_def scan_literal_def scan_sign_def scan_unsigned_def scan_exponent_def
      is_digit_def digits_val_def digit_val_def pow10_def)

lemma sample_numeric_7: "sqlNumeric sample_env ''7'' = Some (Fin 7)"
  by (simp add: sample_env_def scan_literal_def scan_sign_def scan_unsigned_def scan_exponent_def
      is_digit_def digits_val_def digit_val_def pow10_def)

lemma merge_prop:
  "get_prop (existing ++ req_body) k = (if req_body k = None then get_prop existing k else get_prop req_body k)"
  by (auto simp: get_prop_def map_add_def split: option.splits)

lemma update_sanitize_throws:
  assumes "getExpenseById E (JStr ident) db = Some existing"
    and "sanitizeExpense E (existing ++ req_body) = Inl e"
  shows "updateExpenseData E ident req_body db = (errorHandler E e, db)"
  using assms by (simp add: updateExpenseData_def)

text \<open>
  On an existing id the payload is laid over the stored row, the merged record is
  sanitized and validated as a whole, and when it fails validation the handler answers
  400 \<open>VALIDATION_ERROR\<close> with the errors and leaves the table as it was, whichever
  field is at fault.
\<close>

lemma update_invalid_merged_record:
  assumes "getExpenseById E (JStr ident) db = Some existing"
    and "sanitizeExpense E (existing ++ req_body) = Inr merged"
    and "\<not> isValid (validateExpense E merged)"
  shows "updateExpenseData E ident req_body db =
           (\<lparr>status = 400,
             body = Failure ''VALIDATION_ERROR'' ''Validation failed''
                      (if development E then Some (Some (errors (validateExpense E merged))) else None)\<rparr>,
            db)
     \<and> errors (validateExpense E merged) \<noteq> []
     \<and> get_prop (existing ++ req_body) k =
         (if req_body k = None then get_prop existing k else get_prop req_body k)"
  using assms
  by (simp add: updateExpenseData_def errorHandler_def validation_error_def merge_prop
      isValid_validateExpense)

lemma update_invalid_merged_record_example:
  "getExpenseById sample_env (JStr ''1'') db_travel = Some (row_object row_travel)
   \<and> sanitizeExpense sample_env (row_object row_travel ++ [''amount'' \<mapsto> JNum (Fin 5)]) =
       Inr [''date'' \<mapsto> JStr ''2023-11-09'', ''amount'' \<mapsto> JNum (Fin 5),
            ''category'' \<mapsto> JStr ''Travel'', ''description'' \<mapsto> JNull]
   \<and> \<not> isValid (validateExpense sample_env
       [''date'' \<mapsto> JStr ''2023-11-09'', ''amount'' \<mapsto> JNum (Fin 5),
        ''category'' \<mapsto> JStr ''Travel'', ''description'' \<mapsto> JNull])
   \<and> updateExpenseData sample_env ''1'' [''amount'' \<mapsto> JNum (Fin 5)] db_travel =
       (\<lparr>status = 400,
         body = Failure ''VALIDATION_ERROR'' ''Validation failed''
           (Some (Some [\<lparr>field = ''category'',
              message = ''Category must be one of: Food, Transport, Entertainment, Utilities, Healthcare, Shopping, Other''\<rparr>]))\<rparr>,
        db_travel)"
proof -
  let ?s = "[''date'' \<mapsto> JStr ''2023-11-09'', ''amount'' \<mapsto> JNum (Fin 5),
            ''category'' \<mapsto> JStr ''Travel'', ''description'' \<mapsto> JNull]"
  have g: "getExpenseById sample_env (JStr ''1'') db_travel = Some (row_object row_travel)"
    by (simp add: getExpenseById_def db_travel_def sample_numeric_1) (simp add: row_travel_def)
  have s: "sanitizeExpense sample_env (row_object row_travel ++ [''amount'' \<mapsto> JNum (Fin 5)]) = Inr ?s"
    by (simp add: sanitizeExpense_def optional_trim_def trim_def is_ws_def or_null_def
        row_object_def row_travel_def get_prop_def)
  have e: "errors (validateExpense sample_env ?s) = [\<lparr>field = ''category'',
              message = ''Category must be one of: Food, Transport, Entertainment, Utilities, Healthcare, Shopping, Other''\<rparr>]"
    by (simp add: errors_validateExpense date_errors_def amount_errors_def category_errors_def
        description_errors_def get_prop_def parseDate_def is_digit_def digits_val_def digit_val_def
        MakeDay_def DayFromYear_def days_before_month_def leap_year_def msPerDay_def
        sample_env_def js_le_def js_gt_def VALID_CATEGORIES_def)
  then have v: "\<not> isValid (validateExpense sample_env ?s)"
    by (simp add: isValid_validateExpense)
  have d: "development sample_env" by (simp add: sample_env_def)
  show ?thesis
    using update_invalid_merged_record [OF g s v, of "''amount''"] g s v e d by simp
qed

text \<open>
  Claim C2 at the payload \<open>{description: 5}\<close> for the stored expense 1.  The merged record
  breaks a rule of the validator, which would report \<open>Description must be text\<close>; but
  \<open>sanitizeExpense\<close> comes first and throws on the number, so the validator is never
  asked and the answer is 500 \<open>INTERNAL_SERVER_ERROR\<close>, not 400 \<open>VALIDATION_ERROR\<close>.
  The table is left as it was.
\<close>

theorem update_non_text_description_answers_500:
  "getExpenseById sample_env (JStr ''1'') db_lunch = Some (row_object row_lunch)
   \<and> \<lparr>field = ''description'', message = ''Description must be text''\<rparr>
         \<in> set (errors (validateExpense sample_env (row_object row_lunch ++ payload_description_5)))
   \<and> isl (sanitizeExpense sample_env (row_object row_lunch ++ payload_description_5))
   \<and> status (fst (updateExpenseData sample_env ''1'' payload_description_5 db_lunch)) = 500
   \<and> error_code (body (fst (updateExpenseData sample_env ''1'' payload_description_5 db_lunch)))
       = Some ''INTERNAL_SERVER_ERROR''
   \<and> snd (updateExpenseData sample_env ''1'' payload_description_5 db_lunch) = db_lunch"
proof -
  have g: "getExpenseById sample_env (JStr ''1'') db_lunch = Some (row_object row_lunch)"
    by (simp add: getExpenseById_def db_lunch_def sample_numeric_1) (simp add: row_lunch_def)
  have p: "get_prop (row_object row_lunch ++ payload_description_5) ''description'' = JNum (Fin 5)"
    "get_prop (row_object row_lunch ++ payload_description_5) ''date'' = JStr ''2023-11-10''"
    "get_prop (row_object row_lunch ++ payload_description_5) ''category'' = JStr ''Food''"
    by (simp_all add: payload_description_5_def row_object_def row_lunch_def get_prop_def)
  have v: "description_errors (row_object row_lunch ++ payload_description_5) =
      [\<lparr>field = ''description'', message = ''Description must be text''\<rparr>]"
    by (simp add: description_errors_def p)
  have m: "\<lparr>field = ''description'', message = ''Description must be text''\<rparr>
         \<in> set (errors (validateExpense sample_env (row_object row_lunch ++ payload_description_5)))"
    by (simp add: errors_validateExpense v)
  have s: "sanitizeExpense sample_env (row_object row_lunch ++ payload_description_5) =
      Inl (Error ''expense.description?.trim is not a function'')"
    by (simp add: sanitizeExpense_def optional_trim_def p)
  have u: "updateExpenseData sample_env ''1'' payload_description_5 db_lunch =
      (errorHandler sample_env (Error ''expense.description?.trim is not a function''), db_lunch)"
    using update_sanitize_throws [OF g s] .
  show ?thesis
    using g m unfolding u s by (simp add: errorHandler_def Error_def)
qed

text \<open>
  Claim C5.  A delete request for an id that matches no stored row is answered 404
  \<open>NOT_FOUND\<close> and changes nothing; \<open>deleteExpense\<close> itself rejects with the
  not-found error exactly when no row was removed and resolves \<open>true\<close> otherwise.
\<close>

theorem delete_missing_id_not_found:
  "(list_all (\<lambda>r. \<not> id_matches E (JStr ident) (row_id r)) (rows db) \<longrightarrow>
      removeExpense E ident db =
        (\<lparr>status = 404,
          body = Failure ''NOT_FOUND'' (''Expense with ID '' @ ident @ '' not found'')
                   (if development E then Some None else None)\<rparr>,
         db))
   \<and> fst (deleteExpense E v db) =
       (if length (filter (\<lambda>r. id_matches E v (row_id r)) (rows db)) = 0
        then Inl (Error (''Expense with ID '' @ to_string E v @ '' not found''))
        else Inr True)
   \<and> rows (snd (deleteExpense E v db)) = filter (\<lambda>r. \<not> id_matches E v (row_id r)) (rows db)"
proof -
  have "getExpenseById E (JStr ident) db = None"
    if "list_all (\<lambda>r. \<not> id_matches E (JStr ident) (row_id r)) (rows db)"
    using that by (simp add: getExpenseById_def find_None_iff list_all_iff)
  then have "list_all (\<lambda>r. \<not> id_matches E (JStr ident) (row_id r)) (rows db) \<longrightarrow>
      removeExpense E ident db =
        (\<lparr>status = 404,
          body = Failure ''NOT_FOUND'' (''Expense with ID '' @ ident @ '' not found'')
                   (if development E then Some None else None)\<rparr>,
         db)"
    by (simp add: removeExpense_def errorHandler_def not_found_error_def)
  moreover have "fst (deleteExpense E v db) =
       (if length (filter (\<lambda>r. id_matches E v (row_id r)) (rows db)) = 0
        then Inl (Error (''Expense with ID '' @ to_string E v @ '' not found''))
        else Inr True)"
    by (simp add: deleteExpense_def Let_def)
  moreover have "rows (snd (deleteExpense E v db)) = filter (\<lambda>r. \<not> id_matches E v (row_id r)) (rows db)"
    by (simp add: deleteExpense_def Let_def)
  ultimately show ?thesis by blast
qed

theorem delete_missing_id_not_found_witness:
  "list_all (\<lambda>r. \<not> id_matches sample_env (JStr ''7'') (row_id r)) (rows db_lunch)
   \<and> removeExpense sample_env ''7'' db_lunch =
       (\<lparr>status = 404, body = Failure ''NOT_FOUND'' ''Expense with ID 7 not found'' (Some None)\<rparr>, db_lunch)
   \<and> fst (deleteExpense sample_env (JStr ''7'') db_lunch) = Inl (Error ''Expense with ID 7 not found'')
   \<and> fst (deleteExpense sample_env (JStr ''1'') db_lunch) = Inr True
   \<and> rows (snd (deleteExpense sample_env (JStr ''1'') db_lunch)) = []"
proof -
  have a: "list_all (\<lambda>r. \<not> id_matches sample_env (JStr ''7'') (row_id r)) (rows db_lunch)"
    by (simp add: db_lunch_def row_lunch_def sample_numeric_7)
  have d: "development sample_env" by (simp add: sample_env_def)
  show ?thesis
    using a d delete_missing_id_not_found [of sample_env "''7''" db_lunch "JStr ''7''"]
      delete_missing_id_not_found [of sample_env "''7''" db_lunch "JStr ''1''"]
    by (simp add: sample_numeric_7 sample_numeric_1) (simp add: db_lunch_def row_lunch_def)
qed

section \<open>Listing with filters\<close>

lemma set_insert_desc: "set (insert_desc x ys) = insert x (set ys)"
  by (induction ys) auto

lemma length_insert_desc: "length (insert_desc x ys) = Suc (length ys)"
  by (induction ys) auto

lemma set_order_by_date_desc: "set (order_by_date_desc rs) = set rs"
  by (induction rs) (simp_all add: order_by_date_desc_def set_insert_desc)

lemma length_order_by_date_desc: "length (order_by_date_desc rs) = length rs"
  by (induction rs) (simp_all add: order_by_date_desc_def length_insert_desc)

lemma where_clause_no_range:
  assumes "\<not> (truthy (get_prop options ''minAmount'') \<and> truthy (get_prop options ''maxAmount''))"
  shows "where_clause E options r =
           where_clause E (options(''minAmount'' := None, ''maxAmount'' := None)) r"
proof -
  have g: "get_prop (options(''minAmount'' := None, ''maxAmount'' := None)) ''category'' = get_prop options ''category''"
    "get_prop (options(''minAmount'' := None, ''maxAmount'' := None)) ''minAmount'' = JUndefined"
    "get_prop (options(''minAmount'' := None, ''maxAmount'' := None)) ''maxAmount'' = JUndefined"
    by (simp_all add: get_prop_def)
  from assms show ?thesis
    unfolding where_clause_def g by (simp only: truthy.simps if_False if_True simp_thms)
qed

text \<open>
  Claim C6, amended.  The amount range is applied exactly when \<open>minAmount\<close> and
  \<open>maxAmount\<close> are both truthy: then the result holds the rows that pass the category
  condition and lie in the range, each once; otherwise the result is the one for the same
  options without the two bounds.  When no row passes the conditions the result is the
  empty list.
\<close>

theorem range_filter_needs_both_truthy:
  "(truthy (get_prop options ''minAmount'') \<and> truthy (get_prop options ''maxAmount'') \<longrightarrow>
      set (getAllExpenses E options db) =
        row_object ` {r. r \<in> set (rows db)
           \<and> (if truthy (get_prop options ''category'')
               then sql_equal (row_category r) (get_prop options ''category'') else True)
           \<and> sql_between E (row_amount r) (get_prop options ''minAmount'') (get_prop options ''maxAmount'')}
      \<and> length (getAllExpenses E options db) =
          length (filter (\<lambda>r. (if truthy (get_prop options ''category'')
               then sql_equal (row_category r) (get_prop options ''category'') else True)
           \<and> sql_between E (row_amount r) (get_prop options ''minAmount'') (get_prop options ''maxAmount''))
             (rows db)))
   \<and> (\<not> (truthy (get_prop options ''minAmount'') \<and> truthy (get_prop options ''maxAmount'')) \<longrightarrow>
        getAllExpenses E options db =
          getAllExpenses E (options(''minAmount'' := None, ''maxAmount'' := None)) db)
   \<and> (list_all (\<lambda>r. \<not> where_clause E options r) (rows db) \<longrightarrow> getAllExpenses E options db = [])"
proof (intro conjI impI)
  assume t: "truthy (get_prop options ''minAmount'') \<and> truthy (get_prop options ''maxAmount'')"
  then have w: "where_clause E options = (\<lambda>r. (if truthy (get_prop options ''category'')
               then sql_equal (row_category r) (get_prop options ''category'') else True)
           \<and> sql_between E (row_amount r) (get_prop options ''minAmount'') (get_prop options ''maxAmount''))"
    by (simp add: where_clause_def fun_eq_iff)
  show "set (getAllExpenses E options db) =
        row_object ` {r. r \<in> set (rows db)
           \<and> (if truthy (get_prop options ''category'')
               then sql_equal (row_category r) (get_prop options ''category'') else True)
           \<and> sql_between E (row_amount r) (get_prop options ''minAmount'') (get_prop options ''maxAmount'')}"
    unfolding getAllExpenses_def w by (simp add: set_order_by_date_desc) 
  show "length (getAllExpenses E options db) =
          length (filter (\<lambda>r. (if truthy (get_prop options ''category'')
               then sql_equal (row_category r) (get_prop options ''category'') else True)
           \<and> sql_between E (row_amount r) (get_prop options ''minAmount'') (get_prop options ''maxAmount''))
             (rows db))"
    unfolding getAllExpenses_def w by (simp add: length_order_by_date_desc)
next
  assume "\<not> (truthy (get_prop options ''minAmount'') \<and> truthy (get_prop options ''maxAmount''))"
  then have "where_clause E options =
      where_clause E (options(''minAmount'' := None, ''maxAmount'' := None))"
    using where_clause_no_range by blast
  then show "getAllExpenses E options db =
      getAllExpenses E (options(''minAmount'' := None, ''maxAmount'' := None)) db"
    by (simp add: getAllExpenses_def)
next
  assume "list_all (\<lambda>r. \<not> where_clause E options r) (rows db)"
  then have "filter (where_clause E options) (rows db) = []"
    by (simp add: filter_empty_conv list_all_iff)
  then show "getAllExpenses E options db = []"
    by (simp add: getAllExpenses_def order_by_date_desc_def)
qed

lemma sample_numeric_values:
  "sqlNumeric sample_env ''10'' = Some (Fin 10)" "sqlNumeric sample_env ''50'' = Some (Fin 50)"
  "sqlNumeric sample_env ''100'' = Some (Fin 100)" "sqlNumeric sample_env ''200'' = Some (Fin 200)"
  "sqlNumeric sample_env ''15'' = Some (Fin 15)" "sqlNumeric sample_env [] = None"
  by (simp_all add: sample_env_def scan_literal_def scan_sign_def scan_unsigned_def scan_exponent_def
      is_digit_def digits_val_def digit_val_def pow10_def)

theorem range_filter_needs_both_truthy_witness:
  "truthy (get_prop query_10_50 ''minAmount'') \<and> truthy (get_prop query_10_50 ''maxAmount'')
   \<and> length (getAllExpenses sample_env query_10_50 db_lunch) = 1
   \<and> \<not> (truthy (get_prop query_empty_min ''minAmount'') \<and> truthy (get_prop query_empty_min ''maxAmount''))
   \<and> getAllExpenses sample_env query_empty_min db_lunch =
       getAllExpenses sample_env (query_empty_min(''minAmount'' := None, ''maxAmount'' := None)) db_lunch
   \<and> list_all (\<lambda>r. \<not> where_clause sample_env query_100_200 r) (rows db_lunch)
   \<and> getAllExpenses sample_env query_100_200 db_lunch = []"
proof -
  have t: "truthy (get_prop query_10_50 ''minAmount'') \<and> truthy (get_prop query_10_50 ''maxAmount'')"
    by (simp add: query_10_50_def get_prop_def)
  have b: "sql_between sample_env (row_amount row_lunch) (get_prop query_10_50 ''minAmount'')
      (get_prop query_10_50 ''maxAmount'')"
    by (simp add: sql_between_def query_10_50_def get_prop_def sample_numeric_values row_lunch_def js_le_def)
  have c: "\<not> truthy (get_prop query_10_50 ''category'')"
    by (simp add: query_10_50_def get_prop_def)
  have f: "\<not> (truthy (get_prop query_empty_min ''minAmount'') \<and> truthy (get_prop query_empty_min ''maxAmount''))"
    by (simp add: query_empty_min_def get_prop_def)
  have n: "list_all (\<lambda>r. \<not> where_clause sample_env query_100_200 r) (rows db_lunch)"
    by (simp add: db_lunch_def where_clause_def sql_between_def query_100_200_def get_prop_def
        sample_numeric_values row_lunch_def js_le_def)
  show ?thesis
    using t f n b c range_filter_needs_both_truthy [of query_10_50 sample_env db_lunch]
      range_filter_needs_both_truthy [of query_empty_min sample_env db_lunch]
      range_filter_needs_both_truthy [of query_100_200 sample_env db_lunch]
    by (simp add: db_lunch_def)
qed

text \<open>
  Claim C6 as stated fails: with \<open>?minAmount=&maxAmount=15\<close> both bounds are present
  in the filter, the one stored amount 42.5 is not in the range, and the row is returned all
  the same; likewise for the options \<open>{minAmount: 0, maxAmount: 15}\<close>.
\<close>

theorem range_filter_skipped_when_both_present:
  "query_empty_min ''minAmount'' \<noteq> None \<and> query_empty_min ''maxAmount'' \<noteq> None
   \<and> \<not> sql_between sample_env (row_amount row_lunch)
          (get_prop query_empty_min ''minAmount'') (get_prop query_empty_min ''maxAmount'')
   \<and> getAllExpenses sample_env query_empty_min db_lunch = [row_object row_lunch]
   \<and> options_zero_min ''minAmount'' \<noteq> None \<and> options_zero_min ''maxAmount'' \<noteq> None
   \<and> \<not> sql_between sample_env (row_amount row_lunch)
          (get_prop options_zero_min ''minAmount'') (get_prop options_zero_min ''maxAmount'')
   \<and> getAllExpenses sample_env options_zero_min db_lunch = [row_object row_lunch]"
  by (simp add: query_empty_min_def options_zero_min_def sql_between_def get_prop_def
      sample_numeric_values row_lunch_def js_le_def getAllExpenses_def where_clause_def db_lunch_def
      order_by_date_desc_def)

section \<open>The summary\<close>















section \<open>The date rule on server and client\<close>

lemma parseDate_calendar:
  "calendar_date s \<Longrightarrow> parseDate s = Some (day_of_date s * msPerDay)"
  by (auto simp: calendar_date_def parseDate_def day_of_date_def days_in_month_def
      split: option.splits if_splits)

text \<open>
  The server compares midnight UTC of the date with the current instant: a calendar date
  is rejected as in the future exactly when it lies after the current day in UTC.
\<close>

lemma server_future_rule:
  assumes "calendar_date s"
  shows "date_after_now E (JStr s) = (utc_day (nowMs E) < day_of_date s)"
proof -
  have "(nowMs E < day_of_date s * 86400000) = (nowMs E div 86400000 < day_of_date s)"
    by linarith
  then show ?thesis
    using parseDate_calendar [OF assms] by (simp add: utc_day_def msPerDay_def)
qed

text \<open>
  The client compares midnight UTC of the date with local midnight.  West of Greenwich
  and on it this is the comparison of the date with the local day; east of it the local
  day itself is already after local midnight and is rejected.
\<close>

lemma client_future_rule_west:
  assumes "calendar_date s" and "- 1440 < tz" and "tz \<le> 0"
  shows "expense_date_after (JStr s) (local_midnight tz now) = (local_day tz now < day_of_date s)"
proof -
  have "(local_day tz now * 86400000 - tz * 60000 < day_of_date s * 86400000)
      = (local_day tz now < day_of_date s)"
    using assms(2,3) by linarith
  then show ?thesis
    using parseDate_calendar [OF assms(1)] by (simp add: local_midnight_def msPerDay_def)
qed

lemma client_future_rule_east:
  assumes "calendar_date s" and "0 < tz" and "tz < 1440"
  shows "expense_date_after (JStr s) (local_midnight tz now) = (local_day tz now \<le> day_of_date s)"
proof -
  have "(local_day tz now * 86400000 - tz * 60000 < day_of_date s * 86400000)
      = (local_day tz now \<le> day_of_date s)"
    using assms(2,3) by linarith
  then show ?thesis
    using parseDate_calendar [OF assms(1)] by (simp add: local_midnight_def msPerDay_def)
qed

text \<open>
  Claim C7 at a browser one hour east of UTC, at noon UTC on the tenth of November 2023
  (one o'clock local time): the date of that day is a calendar date, it is the current day
  both in UTC and on the local clock, and \<open>validateExpenseForm\<close> rejects it as in the
  future, while the server's date check at the same instant reports nothing.
\<close>

theorem client_rejects_today_east_of_utc:
  "calendar_date ''2023-11-10''
   \<and> day_of_date ''2023-11-10'' = utc_day 1699617600000
   \<and> day_of_date ''2023-11-10'' = local_day 60 1699617600000
   \<and> validateExpenseForm Fin 60 1699617600000 form_today = Some ''Date cannot be in the future''
   \<and> nowMs sample_env = 1699617600000
   \<and> date_errors sample_env form_today = []"
  by (simp add: calendar_date_def day_of_date_def utc_day_def local_day_def msPerDay_def
      validateExpenseForm_def form_today_def get_prop_def local_midnight_def parseDate_def
      is_digit_def digits_val_def digit_val_def MakeDay_def DayFromYear_def days_before_month_def
      days_in_month_def leap_year_def sample_env_def date_errors_def)

theorem client_rejects_today_east_of_utc_witness:
  "truthy (get_prop form_today ''date'')
   \<and> validateExpenseForm Fin 60 1699617600000 form_today = Some ''Date cannot be in the future''"
  using client_rejects_today_east_of_utc by (simp add: form_today_def get_prop_def)

section \<open>The client's errors\<close>

lemma fetchAPI_rejected:
  "fetchAPI numToString (Rejected m) = Inl (NetworkError (PlainError m))"
  by (simp add: fetchAPI_def fetchAPI_catch_def handleNetworkError_def)

text \<open>
  A non-OK response whose body is a JSON value other than \<open>null\<close> is thrown as the
  application error with the response's status and the envelope's code and details.
\<close>

lemma fetchAPI_application_error:
  assumes "\<not> response_ok response" and "http_status response \<noteq> 0"
    and "json response = JSONValue (Some e)"
  shows "\<exists>m. fetchAPI numToString (Responded response) =
           Inl (ApiError m (http_status response) (eo_code e) (eo_details e))"
  using assms by (simp add: fetchAPI_def fetchAPI_catch_def handleErrorResponse_def)

text \<open>
  Claim C8 at a completed response with status 502 whose body is not JSON: the error
  \<open>HTTP 502: Bad Gateway\<close> built for it carries no \<open>statusCode\<close>, so the \<open>catch\<close> of
  \<open>fetchAPI\<close> wraps it into the generic network error, the same kind a request that
  never got a response ends in.
\<close>

theorem non_json_error_response_becomes_network_error:
  "\<not> response_ok bad_gateway
   \<and> fetchAPI (\<lambda>n. []) (Responded bad_gateway) = Inl (NetworkError (PlainError ''HTTP 502: Bad Gateway''))
   \<and> fetchAPI (\<lambda>n. []) (Rejected ''Failed to fetch'' :: unit fetch_outcome)
       = Inl (NetworkError (PlainError ''Failed to fetch''))"
proof -
  have s: "show_nat 502 = ''502''"
    by (simp add: show_nat.simps [of 502] show_nat.simps [of 50] show_nat.simps [of 5])
  show ?thesis
    using s by (simp add: fetchAPI_def fetchAPI_catch_def handleErrorResponse_def handleNetworkError_def
      bad_gateway_def response_ok_def)
qed

end
